theory Spec2Isabelle
  imports Main
begin

section \<open>JavaScript values\<close>

text \<open>
  The serverless functions handle untyped JavaScript values: parsed JSON payloads, rows
  returned by the data store, results of helper modules. They are modelled by one datatype.
  Numbers are integers: the code under study only tests numbers for zero, prints them and
  copies them. An object is the list of its own properties, with distinct names.
\<close>

datatype jsval =
    JUndefined
  | JNull
  | JBool bool
  | JNum int
  | JStr string
  | JArr "jsval list"
  | JObj "(string \<times> jsval) list"

text \<open>Truthiness, as tested by \<^verbatim>\<open>if (x)\<close>, \<^verbatim>\<open>!x\<close>, \<^verbatim>\<open>x && y\<close> and \<^verbatim>\<open>x || y\<close>.\<close>

fun truthy :: "jsval \<Rightarrow> bool" where
  "truthy JUndefined = False"
| "truthy JNull = False"
| "truthy (JBool b) = b"
| "truthy (JNum n) = (n \<noteq> 0)"
| "truthy (JStr s) = (s \<noteq> [])"
| "truthy (JArr xs) = True"
| "truthy (JObj kvs) = True"

definition nullish :: "jsval \<Rightarrow> bool" where
  "nullish v = (v = JUndefined \<or> v = JNull)"

section \<open>The webhook verification endpoint\<close>

text \<open>
  \<^verbatim>\<open>netlify/functions/meta-webhook-verification.js\<close>. The request is the function's
  \<^verbatim>\<open>event\<close>; the response is the object the handler returns. A body written with
  \<^verbatim>\<open>JSON.stringify(v)\<close> is kept as \<open>Stringified v\<close>, a body passed as it is as
  \<open>Raw v\<close>, and a response without a body is \<open>Absent\<close>.
\<close>

record event =
  httpMethod :: string
  path :: string
  queryStringParameters :: "(string \<rightharpoonup> string) option"
  headers :: jsval
  body :: jsval

datatype payload = Stringified jsval | Raw jsval | Absent

record response =
  statusCode :: nat
  resp_headers :: "(string \<times> string) list"
  resp_body :: payload

text \<open>
  A row of the table \<^verbatim>\<open>webhook_configs\<close>, with the columns the admin screen writes
  (\<^verbatim>\<open>AdminWebhookSetup.tsx\<close>): the activation flag is the column \<^verbatim>\<open>is_active\<close>.
\<close>

record webhook_config =
  config_id :: string
  config_user_id :: string
  config_platform :: string
  verification_token :: string
  is_active :: bool

text \<open>
  The data-store client of the module. A query against it either fails with an error
  object or returns the rows that pass every \<^verbatim>\<open>.eq(column, value)\<close> filter.
\<close>

record supabase_client =
  webhook_configs :: "webhook_config list"
  failure :: "jsval option"

text \<open>
  Module initialisation (lines 6 to 18): the client exists only when both environment
  variables are set and non-empty and \<^verbatim>\<open>createClient\<close> does not throw
  (\<open>createClient\<close> returning \<open>None\<close>); otherwise the module variable stays \<^verbatim>\<open>null\<close>.
\<close>

definition init_supabase ::
  "(string \<Rightarrow> string \<Rightarrow> supabase_client option) \<Rightarrow> string option \<Rightarrow> string option
     \<Rightarrow> supabase_client option" where
  "init_supabase createClient supabaseUrl supabaseServiceKey =
     (case (supabaseUrl, supabaseServiceKey) of
        (Some url, Some key) \<Rightarrow>
          (if url \<noteq> [] \<and> key \<noteq> [] then createClient url key else None)
      | _ \<Rightarrow> None)"

text \<open>\<^verbatim>\<open>String.prototype.split\<close> with a one-character separator.\<close>

fun split_on :: "char \<Rightarrow> string \<Rightarrow> string list" where
  "split_on c [] = [[]]"
| "split_on c (x # xs) =
     (if x = c then [] # split_on c xs
      else (case split_on c xs of
              [] \<Rightarrow> [[x]]
            | seg # segs \<Rightarrow> (x # seg) # segs))"

definition verification_cors :: "(string \<times> string) list" where
  "verification_cors =
     [(''Access-Control-Allow-Origin'', ''*''),
      (''Access-Control-Allow-Headers'', ''Content-Type''),
      (''Access-Control-Allow-Methods'', ''GET, OPTIONS'')]"

definition error_body :: "string \<Rightarrow> payload" where
  "error_body msg = Stringified (JObj [(''error'', JStr msg)])"

text \<open>
  Lines 62 to 69: the tenant and the channel are read from the path when it has at least
  five segments and the third is \<^verbatim>\<open>webhooks\<close>; otherwise the tenant is \<^verbatim>\<open>null\<close> and the
  channel is \<^verbatim>\<open>'all'\<close>.
\<close>

definition verification_path :: "string \<Rightarrow> string option \<times> string" where
  "verification_path p =
     (let pathSegments = split_on CHR ''/'' p in
      if length pathSegments \<ge> 5 \<and> pathSegments ! 2 = ''webhooks''
      then (Some (pathSegments ! 3), pathSegments ! 4)
      else (None, ''all''))"

text \<open>
  Lines 86 to 94: the query filters on the token, on the tenant when one was read and is
  not empty, and on the channel when it is neither empty nor \<^verbatim>\<open>'all'\<close>. No filter
  mentions \<^verbatim>\<open>is_active\<close>.
\<close>

definition config_matches :: "string \<Rightarrow> string option \<Rightarrow> string \<Rightarrow> webhook_config \<Rightarrow> bool" where
  "config_matches token userId plat cfg =
     (verification_token cfg = token
      \<and> (case userId of
            Some u \<Rightarrow> (if u \<noteq> [] then config_user_id cfg = u else True)
          | None \<Rightarrow> True)
      \<and> (if plat \<noteq> [] \<and> plat \<noteq> ''all'' then config_platform cfg = plat else True))"

definition run_query ::
  "supabase_client \<Rightarrow> string \<Rightarrow> string option \<Rightarrow> string \<Rightarrow> jsval + webhook_config list" where
  "run_query client token userId plat =
     (case failure client of
        Some err \<Rightarrow> Inl err
      | None \<Rightarrow> Inr (filter (config_matches token userId plat) (webhook_configs client)))"

definition param :: "event \<Rightarrow> string \<Rightarrow> string option" where
  "param ev k = (case queryStringParameters ev of None \<Rightarrow> None | Some ps \<Rightarrow> ps k)"

definition challenge_body :: "string option \<Rightarrow> payload" where
  "challenge_body challenge = Raw (case challenge of None \<Rightarrow> JUndefined | Some c \<Rightarrow> JStr c)"

definition invalid_token :: response where
  "invalid_token =
     \<lparr>statusCode = 401, resp_headers = verification_cors,
      resp_body = error_body ''Invalid verification token.''\<rparr>"

text \<open>
  The handler, lines 20 to 117. Console output is left out. With \<open>path\<close> a string, no
  statement of the \<^verbatim>\<open>try\<close> block throws, so the \<^verbatim>\<open>catch\<close> branch (status 500,
  "Internal server error during webhook verification.") has no case here.
\<close>

definition verification_handler :: "supabase_client option \<Rightarrow> event \<Rightarrow> response" where
  "verification_handler supabase ev =
     (if httpMethod ev = ''OPTIONS''
      then \<lparr>statusCode = 204, resp_headers = verification_cors, resp_body = Absent\<rparr>
      else if httpMethod ev \<noteq> ''GET''
      then \<lparr>statusCode = 405, resp_headers = verification_cors,
            resp_body = error_body ''Method not allowed. Please use GET for webhook verification.''\<rparr>
      else
        let mode = param ev ''hub.mode'';
            token = param ev ''hub.verify_token'';
            challenge = param ev ''hub.challenge''
        in
        if mode \<noteq> Some ''subscribe''
        then \<lparr>statusCode = 400, resp_headers = verification_cors,
              resp_body = error_body ''Invalid hub.mode parameter. Expected \"subscribe\".''\<rparr>
        else (case token of
            None \<Rightarrow> \<lparr>statusCode = 400, resp_headers = verification_cors,
                      resp_body = error_body ''Missing hub.verify_token parameter.''\<rparr>
          | Some tok \<Rightarrow>
              if tok = []
              then \<lparr>statusCode = 400, resp_headers = verification_cors,
                    resp_body = error_body ''Missing hub.verify_token parameter.''\<rparr>
              else
                let (userId, plat) = verification_path (path ev) in
                (case supabase of
                   None \<Rightarrow> invalid_token
                 | Some client \<Rightarrow>
                     (case run_query client tok userId plat of
                        Inl err \<Rightarrow>
                          \<lparr>statusCode = 500, resp_headers = verification_cors,
                           resp_body = error_body ''Error verifying webhook token.''\<rparr>
                      | Inr webhookConfigs \<Rightarrow>
                          if length webhookConfigs > 0
                          then \<lparr>statusCode = 200,
                                resp_headers = verification_cors @ [(''Content-Type'', ''text/plain'')],
                                resp_body = challenge_body challenge\<rparr>
                          else invalid_token))))"


section \<open>Reading properties, printing values\<close>

text \<open>
  An error object is represented by its name and its message. \<open>new_Error\<close> is
  \<^verbatim>\<open>new Error(msg)\<close>; \<open>type_error\<close> is the \<^verbatim>\<open>TypeError\<close> the engine throws.
\<close>

definition new_Error :: "string \<Rightarrow> jsval" where
  "new_Error msg = JObj [(''name'', JStr ''Error''), (''message'', JStr msg)]"

definition type_error :: "string \<Rightarrow> jsval" where
  "type_error msg = JObj [(''name'', JStr ''TypeError''), (''message'', JStr msg)]"

text \<open>Decimal digits of a natural number and of an integer, as \<^verbatim>\<open>String(n)\<close> prints them.\<close>

fun dec_nat :: "nat \<Rightarrow> string" where
  "dec_nat n =
     (if n < 10 then [''0123456789'' ! n]
      else dec_nat (n div 10) @ [''0123456789'' ! (n mod 10)])"

declare dec_nat.simps [simp del]

definition dec_int :: "int \<Rightarrow> string" where
  "dec_int i = (if i < 0 then CHR ''-'' # dec_nat (nat (- i)) else dec_nat (nat i))"

fun join_with :: "string \<Rightarrow> string list \<Rightarrow> string" where
  "join_with sep [] = []"
| "join_with sep [x] = x"
| "join_with sep (x # y # ys) = x @ sep @ join_with sep (y # ys)"

text \<open>
  The string conversion of template literals and of \<^verbatim>\<open>RegExp.prototype.exec\<close>. An array
  prints its elements separated by commas, \<^verbatim>\<open>null\<close> and \<^verbatim>\<open>undefined\<close> elements as
  the empty string; a plain object prints as \<^verbatim>\<open>[object Object]\<close>.
\<close>

fun to_string :: "jsval \<Rightarrow> string" where
  "to_string JUndefined = ''undefined''"
| "to_string JNull = ''null''"
| "to_string (JBool b) = (if b then ''true'' else ''false'')"
| "to_string (JNum n) = dec_int n"
| "to_string (JStr s) = s"
| "to_string (JArr xs) =
     join_with '','' (map (\<lambda>x. if x = JUndefined \<or> x = JNull then [] else to_string x) xs)"
| "to_string (JObj kvs) = ''[object Object]''"

text \<open>
  The own enumerable properties, as \<^verbatim>\<open>Object.entries\<close> lists them: the properties of an
  object, the indexed elements of an array, the indexed characters of a string, and none
  for the other primitives.
\<close>

definition indexed :: "jsval list \<Rightarrow> (string \<times> jsval) list" where
  "indexed xs = zip (map dec_nat [0..<length xs]) xs"

fun entries :: "jsval \<Rightarrow> (string \<times> jsval) list" where
  "entries (JObj kvs) = kvs"
| "entries (JArr xs) = indexed xs"
| "entries (JStr s) = indexed (map (\<lambda>c. JStr [c]) s)"
| "entries v = []"

text \<open>
  Reading a property, \<^verbatim>\<open>x.k\<close>: a \<^verbatim>\<open>TypeError\<close> on \<^verbatim>\<open>undefined\<close> and \<^verbatim>\<open>null\<close>, the
  own property or \<^verbatim>\<open>undefined\<close> otherwise. Arrays and strings also have their
  \<^verbatim>\<open>length\<close>. Inherited methods are not values of the model; the code reads none as data.
\<close>

definition cannot_read :: "string \<Rightarrow> string \<Rightarrow> jsval" where
  "cannot_read what k =
     type_error (''Cannot read properties of '' @ what @ '' (reading '' @ [CHR 0x27] @ k @ [CHR 0x27] @ '')'')"

definition own_or_undefined :: "(string \<times> jsval) list \<Rightarrow> string \<Rightarrow> jsval" where
  "own_or_undefined kvs k = (case map_of kvs k of None \<Rightarrow> JUndefined | Some v \<Rightarrow> v)"

fun get_prop :: "jsval \<Rightarrow> string \<Rightarrow> jsval + jsval" where
  "get_prop JUndefined k = Inl (cannot_read ''undefined'' k)"
| "get_prop JNull k = Inl (cannot_read ''null'' k)"
| "get_prop (JObj kvs) k = Inr (own_or_undefined kvs k)"
| "get_prop (JArr xs) k =
     Inr (if k = ''length'' then JNum (int (length xs)) else own_or_undefined (indexed xs) k)"
| "get_prop (JStr s) k =
     Inr (if k = ''length'' then JNum (int (length s))
          else own_or_undefined (indexed (map (\<lambda>c. JStr [c]) s)) k)"
| "get_prop (JBool b) k = Inr JUndefined"
| "get_prop (JNum n) k = Inr JUndefined"

text \<open>
  The values a \<^verbatim>\<open>for ... of\<close> loop visits: the elements of an array, the characters of a
  string; any other value is not iterable and the loop throws. The message names the
  expression of the loop, as the engine does.
\<close>

fun iterate :: "string \<Rightarrow> jsval \<Rightarrow> jsval + jsval list" where
  "iterate what (JArr xs) = Inr xs"
| "iterate what (JStr s) = Inr (map (\<lambda>c. JStr [c]) s)"
| "iterate what v = Inl (type_error (what @ '' is not iterable''))"

section \<open>Context updates in an AI reply\<close>

text \<open>
  \<^verbatim>\<open>extractContextFromVoiceflowResponse\<close>, lines 302 to 321. The regular expression
  \<^verbatim>\<open>/\[\[SET:([a-zA-Z0-9_]+)=([^\]]+)\]\]/g\<close> is matched at a position as follows: the
  literal \<^verbatim>\<open>[[SET:\<close>, the longest non-empty run of key characters, \<^verbatim>\<open>=\<close>, the longest
  non-empty run of characters other than \<^verbatim>\<open>]\<close>, and \<^verbatim>\<open>]]\<close>. Both runs are greedy, and
  giving back characters never helps: a shorter key would be followed by a key character
  instead of \<^verbatim>\<open>=\<close>, a shorter value by a character other than \<^verbatim>\<open>]\<close>.
\<close>

definition key_char :: "char \<Rightarrow> bool" where
  "key_char c =
     (let n = of_char c :: nat in
      (97 \<le> n \<and> n \<le> 122) \<or> (65 \<le> n \<and> n \<le> 90) \<or> (48 \<le> n \<and> n \<le> 57) \<or> n = 95)"

fun strip_prefix :: "string \<Rightarrow> string \<Rightarrow> string option" where
  "strip_prefix [] s = Some s"
| "strip_prefix (p # ps) [] = None"
| "strip_prefix (p # ps) (c # cs) = (if p = c then strip_prefix ps cs else None)"

definition match_here :: "string \<Rightarrow> (string \<times> string \<times> string) option" where
  "match_here s =
     (case strip_prefix ''[[SET:'' s of
        None \<Rightarrow> None
      | Some s1 \<Rightarrow>
          let key = takeWhile key_char s1; s2 = dropWhile key_char s1 in
          if key = [] then None
          else (case s2 of
                  [] \<Rightarrow> None
                | c # s3 \<Rightarrow>
                    if c \<noteq> CHR ''='' then None
                    else
                      let val = takeWhile (\<lambda>c. c \<noteq> CHR '']'') s3;
                          s4 = dropWhile (\<lambda>c. c \<noteq> CHR '']'') s3
                      in
                      if val = [] then None
                      else (case strip_prefix '']]'' s4 of
                              None \<Rightarrow> None
                            | Some rest \<Rightarrow> Some (key, val, rest))))"

text \<open>
  The \<^verbatim>\<open>while\<close> loop over \<^verbatim>\<open>exec\<close> with the \<^verbatim>\<open>g\<close> flag: the leftmost match from the
  current position, then on from the end of that match.
\<close>

function scan_markers :: "string \<Rightarrow> (string \<times> string) list" where
  "scan_markers [] = []"
| "scan_markers (c # cs) =
     (case match_here (c # cs) of
        Some (k, v, rest) \<Rightarrow> (k, v) # scan_markers rest
      | None \<Rightarrow> scan_markers cs)"
  by pat_completeness auto
termination
proof (relation "measure length")
  show "wf (measure length)" by simp
next
  fix c :: char and cs :: string and triple k pair v rest
  assume m: "match_here (c # cs) = Some triple" and t: "(k, pair) = triple" "(v, rest) = pair"
  have sp: "strip_prefix p s = Some r \<Longrightarrow> length r \<le> length s" for p s r
    by (induction p s rule: strip_prefix.induct) (auto split: if_splits)
  from m t obtain s1 s3 where
    s1: "strip_prefix ''[[SET:'' (c # cs) = Some s1"
    and s3: "dropWhile key_char s1 = CHR ''='' # s3"
    and r: "strip_prefix '']]'' (dropWhile (\<lambda>c. c \<noteq> CHR '']'') s3) = Some rest"
    by (auto simp: match_here_def Let_def split: option.splits list.splits if_splits)
  have "length rest \<le> length (dropWhile (\<lambda>c. c \<noteq> CHR '']'') s3)"
    by (rule sp [OF r])
  also have "\<dots> \<le> length s3" by (rule length_dropWhile_le)
  also have "\<dots> < length (dropWhile key_char s1)" using s3 by simp
  also have "\<dots> \<le> length s1" by (rule length_dropWhile_le)
  also have "\<dots> \<le> length (c # cs)" by (rule sp [OF s1])
  finally show "(rest, c # cs) \<in> measure length" by simp
next
  fix c :: char and cs :: string
  assume "match_here (c # cs) = None"
  show "(cs, c # cs) \<in> measure length" by simp
qed

text \<open>
  \<^verbatim>\<open>contextUpdates[key] = value\<close> on an object created by \<^verbatim>\<open>{}\<close>: the key
  \<^verbatim>\<open>__proto__\<close> reaches the prototype setter and creates no own property; any other key
  creates or replaces the own property. The order of the properties is not modelled.
\<close>

definition assign :: "(string \<times> jsval) list \<Rightarrow> string \<Rightarrow> jsval \<Rightarrow> (string \<times> jsval) list" where
  "assign obj k v =
     (if k = ''__proto__'' then obj
      else if k \<in> fst ` set obj then map (\<lambda>(k', v'). if k' = k then (k', v) else (k', v')) obj
      else obj @ [(k, v)])"

fun assign_all :: "(string \<times> jsval) list \<Rightarrow> (string \<times> jsval) list \<Rightarrow> (string \<times> jsval) list" where
  "assign_all obj [] = obj"
| "assign_all obj ((k, v) # kvs) = assign_all (assign obj k v) kvs"

text \<open>The body of the \<^verbatim>\<open>forEach\<close> callback for one item of the reply.\<close>

definition extract_item ::
  "jsval \<Rightarrow> (string \<times> jsval) list \<Rightarrow> jsval + (string \<times> jsval) list" where
  "extract_item item contextUpdates =
     (case get_prop item ''type'' of
        Inl err \<Rightarrow> Inl err
      | Inr ty \<Rightarrow>
          (case get_prop item ''payload'' of
             Inl err \<Rightarrow> Inl err
           | Inr pl \<Rightarrow>
               let updates1 =
                     (if ty = JStr ''set-variables'' \<and> truthy pl
                      then assign_all contextUpdates (entries pl)
                      else contextUpdates)
               in
               if ty = JStr ''text'' \<and> truthy pl
               then (case get_prop pl ''message'' of
                       Inl err \<Rightarrow> Inl err
                     | Inr msg \<Rightarrow>
                         if truthy msg
                         then Inr (assign_all updates1
                                     (map (\<lambda>(k, v). (k, JStr v)) (scan_markers (to_string msg))))
                         else Inr updates1)
               else Inr updates1))"

fun extract_items ::
  "jsval list \<Rightarrow> (string \<times> jsval) list \<Rightarrow> jsval + (string \<times> jsval) list" where
  "extract_items [] contextUpdates = Inr contextUpdates"
| "extract_items (item # items) contextUpdates =
     (case extract_item item contextUpdates of
        Inl err \<Rightarrow> Inl err
      | Inr contextUpdates' \<Rightarrow> extract_items items contextUpdates')"

definition extractContextFromVoiceflowResponse :: "jsval \<Rightarrow> jsval + (string \<times> jsval) list" where
  "extractContextFromVoiceflowResponse voiceflowResponse =
     (case voiceflowResponse of
        JArr items \<Rightarrow> extract_items items []
      | _ \<Rightarrow> Inr [])"

section \<open>Effects of the message pipeline\<close>

text \<open>
  \<^verbatim>\<open>netlify/functions/meta-webhook-handler.js\<close> talks to the data store, to helper modules
  (\<^verbatim>\<open>./message-processor\<close>, \<^verbatim>\<open>./error-recovery\<close>, \<^verbatim>\<open>./message-queue\<close>,
  \<^verbatim>\<open>./session-manager\<close>, \<^verbatim>\<open>./webhook-security\<close>), to built-ins (\<^verbatim>\<open>JSON.parse\<close>,
  \<^verbatim>\<open>Date\<close>) and to HTTP services through \<^verbatim>\<open>axios\<close>. None of these is part of the sources.
  Each is a parameter: a function of the request and of the state of the outside world
  that returns a result or throws, and a new state of the world. Every call is appended
  to a trace, so that what an invocation did can be stated; a line written to the console
  is recorded with its level and its first argument.

  A query of the data store is described by its table, its columns, its equality filters
  and its limit; it resolves to \<^verbatim>\<open>{ data, error }\<close> with \<open>data\<close> an array or \<^verbatim>\<open>null\<close>.
\<close>

datatype db_request =
    Select string string "(string \<times> jsval) list" "nat option"
  | Insert string jsval
  | Update string jsval "(string \<times> jsval) list"

record db_result =
  data :: "jsval list option"
  error :: jsval

datatype request =
    Query db_request
  | Helper string "jsval list"
  | Post string jsval jsval
  | Sleep nat
  | Console string string

record 'w state =
  world :: 'w
  trace :: "request list"

type_synonym ('w, 'a) prog = "'w state \<Rightarrow> (jsval + 'a) \<times> 'w state"

type_synonym 'w client = "db_request \<Rightarrow> 'w \<Rightarrow> (jsval + db_result) \<times> 'w"

text \<open>
  The module variable \<^verbatim>\<open>supabase\<close> (\<open>None\<close> when initialisation failed), the collaborators,
  and the environment variables the handler reads.
\<close>

record 'w env =
  supabase :: "'w client option"
  helper :: "string \<Rightarrow> jsval list \<Rightarrow> 'w \<Rightarrow> (jsval + jsval) \<times> 'w"
  axios_post :: "string \<Rightarrow> jsval \<Rightarrow> jsval \<Rightarrow> 'w \<Rightarrow> (jsval + jsval) \<times> 'w"
  META_APP_SECRET :: "string option"
  VOICEFLOW_API_KEY :: "string option"
  verification_supabase :: "supabase_client option"

definition return :: "'a \<Rightarrow> ('w, 'a) prog" where
  "return x s = (Inr x, s)"

definition throw :: "jsval \<Rightarrow> ('w, 'a) prog" where
  "throw err s = (Inl err, s)"

definition lift :: "jsval + 'a \<Rightarrow> ('w, 'a) prog" where
  "lift r s = (r, s)"

definition and_then :: "('w, 'a) prog \<Rightarrow> ('a \<Rightarrow> ('w, 'b) prog) \<Rightarrow> ('w, 'b) prog" where
  "and_then m f s = (case m s of (Inl err, s') \<Rightarrow> (Inl err, s') | (Inr x, s') \<Rightarrow> f x s')"

definition try_catch :: "('w, 'a) prog \<Rightarrow> (jsval \<Rightarrow> ('w, 'a) prog) \<Rightarrow> ('w, 'a) prog" where
  "try_catch m h s = (case m s of (Inl err, s') \<Rightarrow> h err s' | (Inr x, s') \<Rightarrow> (Inr x, s'))"

text \<open>
  A \<^verbatim>\<open>try\<close> statement whose \<^verbatim>\<open>catch\<close> block returns from the function: the code after the
  statement runs only when the block did not throw.
\<close>

definition try_else ::
  "('w, 'a) prog \<Rightarrow> ('a \<Rightarrow> ('w, 'b) prog) \<Rightarrow> (jsval \<Rightarrow> ('w, 'b) prog) \<Rightarrow> ('w, 'b) prog" where
  "try_else m on_value on_throw s =
     (case m s of (Inl err, s') \<Rightarrow> on_throw err s' | (Inr x, s') \<Rightarrow> on_value x s')"

definition emit :: "request \<Rightarrow> ('w, unit) prog" where
  "emit r s = (Inr (), s\<lparr>trace := trace s @ [r]\<rparr>)"

definition console :: "string \<Rightarrow> string \<Rightarrow> ('w, unit) prog" where
  "console level msg = emit (Console level msg)"

definition call :: "'w env \<Rightarrow> string \<Rightarrow> jsval list \<Rightarrow> ('w, jsval) prog" where
  "call env name args s =
     (case helper env name args (world s) of
        (r, w) \<Rightarrow> (r, \<lparr>world = w, trace = trace s @ [Helper name args]\<rparr>))"

definition query :: "'w client \<Rightarrow> db_request \<Rightarrow> ('w, db_result) prog" where
  "query client q s =
     (case client q (world s) of
        (r, w) \<Rightarrow> (r, \<lparr>world = w, trace = trace s @ [Query q]\<rparr>))"

definition post :: "'w env \<Rightarrow> string \<Rightarrow> jsval \<Rightarrow> jsval \<Rightarrow> ('w, jsval) prog" where
  "post env url payload config s =
     (case axios_post env url payload config (world s) of
        (r, w) \<Rightarrow> (r, \<lparr>world = w, trace = trace s @ [Post url payload config]\<rparr>))"

text \<open>A \<^verbatim>\<open>for ... of\<close> loop that updates an accumulator and stops at the first throw.\<close>

fun for_each :: "('a \<Rightarrow> 'b \<Rightarrow> ('w, 'b) prog) \<Rightarrow> 'a list \<Rightarrow> 'b \<Rightarrow> ('w, 'b) prog" where
  "for_each f [] acc s = (Inr acc, s)"
| "for_each f (x # xs) acc s =
     (case f x acc s of
        (Inl err, s') \<Rightarrow> (Inl err, s')
      | (Inr acc', s') \<Rightarrow> for_each f xs acc' s')"

subsection \<open>Retry with backoff\<close>

record 'w retry_options =
  maxRetries :: nat
  initialDelay :: nat
  maxDelay :: "nat option"
  shouldRetry :: "(jsval \<Rightarrow> ('w, bool) prog) option"

text \<open>\<^verbatim>\<open>(error) => isTransientError(error)\<close>, the predicate most calls pass.\<close>

definition is_transient :: "'w env \<Rightarrow> jsval \<Rightarrow> ('w, bool) prog" where
  "is_transient env err = and_then (call env ''isTransientError'' [err]) (\<lambda>r. return (truthy r))"

definition backoff_delay :: "'w retry_options \<Rightarrow> nat \<Rightarrow> nat" where
  "backoff_delay opts attempt =
     (case maxDelay opts of
        None \<Rightarrow> initialDelay opts * attempt
      | Some cap \<Rightarrow> min (initialDelay opts * attempt) cap)"

text \<open>
  Modelled from the spec: \<^verbatim>\<open>retryWithBackoff\<close> of \<^verbatim>\<open>./error-recovery\<close>, which is not among
  the sources. Section 4.6: it invokes the operation; on failure it consults
  \<^verbatim>\<open>shouldRetry(error)\<close>, by default the classification of the error as transient; if the
  error is to be retried and attempts remain, it sleeps
  \<^verbatim>\<open>min(initialDelay * attempt, maxDelay)\<close> and retries; otherwise it re-raises the error.
  \<open>maxRetries\<close> counts the attempts (section 8: with \<^verbatim>\<open>maxRetries: 3\<close>, two failures and a
  success are three invocations). The operation runs at least once.
\<close>

fun retry_attempts ::
  "'w env \<Rightarrow> 'w retry_options \<Rightarrow> ('w, 'a) prog \<Rightarrow> nat \<Rightarrow> nat \<Rightarrow> ('w, 'a) prog" where
  "retry_attempts env opts operation attempt 0 s = operation s"
| "retry_attempts env opts operation attempt (Suc remaining) s =
     (case operation s of
        (Inr x, s1) \<Rightarrow> (Inr x, s1)
      | (Inl err, s1) \<Rightarrow>
          (case (case shouldRetry opts of None \<Rightarrow> is_transient env err | Some p \<Rightarrow> p err) s1 of
             (Inl err', s2) \<Rightarrow> (Inl err', s2)
           | (Inr again, s2) \<Rightarrow>
               if again
               then retry_attempts env opts operation (Suc attempt) remaining
                      (s2\<lparr>trace := trace s2 @ [Sleep (backoff_delay opts attempt)]\<rparr>)
               else (Inl err, s2)))"

definition retryWithBackoff ::
  "'w env \<Rightarrow> ('w, 'a) prog \<Rightarrow> 'w retry_options \<Rightarrow> ('w, 'a) prog" where
  "retryWithBackoff env operation opts = retry_attempts env opts operation 1 (maxRetries opts - 1)"

definition transient_retry :: "'w env \<Rightarrow> nat \<Rightarrow> nat \<Rightarrow> 'w retry_options" where
  "transient_retry env n d =
     \<lparr>maxRetries = n, initialDelay = d, maxDelay = None, shouldRetry = Some (is_transient env)\<rparr>"

section \<open>Processing one message\<close>

text \<open>
  \<^verbatim>\<open>processMessage\<close>, lines 41 to 295. Its arguments are untyped values: the function is
  also called with rows of the queue. Values are immutable in the model: a helper does
  not change an object it was handed.
\<close>

definition to_iso :: "'w env \<Rightarrow> jsval \<Rightarrow> ('w, jsval) prog" where
  "to_iso env timestamp = call env ''new Date(timestamp).toISOString'' [timestamp]"

definition now_iso :: "'w env \<Rightarrow> ('w, jsval) prog" where
  "now_iso env = call env ''new Date().toISOString'' []"

text \<open>\<^verbatim>\<open>data[0]\<close> on the rows of a result.\<close>

definition first_row :: "jsval list option \<Rightarrow> jsval + jsval" where
  "first_row rows =
     (case rows of
        None \<Rightarrow> Inl (cannot_read ''null'' ''0'')
      | Some [] \<Rightarrow> Inr JUndefined
      | Some (row # _) \<Rightarrow> Inr row)"

definition no_rows :: "jsval list option \<Rightarrow> bool" where
  "no_rows rows = (rows = None \<or> rows = Some [])"

definition getSocialConnection ::
  "'w client \<Rightarrow> jsval \<Rightarrow> jsval \<Rightarrow> jsval \<Rightarrow> ('w, jsval) prog" where
  "getSocialConnection client userId platform recipientId =
     and_then (query client
        (Select ''social_connections'' ''*''
           [(''user_id'', userId),
            (if platform = JStr ''facebook'' then ''fb_page_id'' else ''ig_account_id'', recipientId)]
           None)) (\<lambda>res.
     if truthy (error res) then throw (error res)
     else if no_rows (data res)
     then throw (new_Error (''No '' @ to_string platform @ '' connection found for user ''
                   @ to_string userId @ '', page ID '' @ to_string recipientId))
     else lift (first_row (data res)))"

definition getOrCreateConversation ::
  "'w env \<Rightarrow> 'w client \<Rightarrow> jsval \<Rightarrow> jsval \<Rightarrow> jsval \<Rightarrow> jsval \<Rightarrow> jsval \<Rightarrow> ('w, jsval) prog" where
  "getOrCreateConversation env client userId platform senderId timestamp session =
     and_then (query client
        (Select ''conversations'' ''*''
           [(''user_id'', userId), (''platform'', platform), (''external_id'', senderId)] None))
       (\<lambda>found.
     if truthy (error found) then throw (error found)
     else if no_rows (data found)
     then
       and_then (to_iso env timestamp) (\<lambda>last_message_at.
       and_then (lift (get_prop session ''id'')) (\<lambda>session_id.
       and_then (query client
          (Insert ''conversations''
             (JObj [(''user_id'', userId), (''platform'', platform), (''external_id'', senderId),
                    (''participant_id'', senderId), (''participant_name'', JNull),
                    (''last_message_at'', last_message_at), (''session_id'', session_id)])))
         (\<lambda>created.
       if truthy (error created) then throw (error created)
       else if no_rows (data created) then throw (new_Error ''Failed to create conversation'')
       else lift (first_row (data created)))))
     else
       and_then (to_iso env timestamp) (\<lambda>last_message_at.
       and_then (lift (get_prop session ''id'')) (\<lambda>session_id.
       and_then (lift (first_row (data found))) (\<lambda>conversation.
       and_then (lift (get_prop conversation ''id'')) (\<lambda>conversation_id.
       and_then (query client
          (Update ''conversations''
             (JObj [(''last_message_at'', last_message_at), (''session_id'', session_id)])
             [(''id'', conversation_id)])) (\<lambda>_.
       return conversation))))))"

definition saveUserMessage ::
  "'w env \<Rightarrow> 'w client \<Rightarrow> jsval \<Rightarrow> jsval \<Rightarrow> jsval \<Rightarrow> jsval \<Rightarrow> ('w, jsval) prog" where
  "saveUserMessage env client conversationId processedMessage message timestamp =
     and_then (lift (get_prop processedMessage ''text'')) (\<lambda>content.
     and_then (lift (get_prop message ''mid'')) (\<lambda>mid.
     and_then (to_iso env timestamp) (\<lambda>sent_at.
     and_then (query client
        (Insert ''messages''
           (JObj [(''conversation_id'', conversationId), (''content'', content),
                  (''sender_type'', JStr ''user''),
                  (''external_id'', if truthy mid then mid else JNull),
                  (''sent_at'', sent_at)]))) (\<lambda>res.
     if truthy (error res) then throw (error res)
     else lift (first_row (data res))))))"

definition getVoiceflowMapping :: "'w client \<Rightarrow> jsval \<Rightarrow> ('w, jsval) prog" where
  "getVoiceflowMapping client userId =
     and_then (query client (Select ''voiceflow_mappings'' ''*'' [(''user_id'', userId)] (Some 1)))
       (\<lambda>res.
     if truthy (error res) then throw (error res)
     else if no_rows (data res) then throw (new_Error ''No Voiceflow agent configured'')
     else lift (first_row (data res)))"

definition env_value :: "string option \<Rightarrow> jsval" where
  "env_value v = (case v of None \<Rightarrow> JUndefined | Some s \<Rightarrow> JStr s)"

definition getApiKey :: "'w env \<Rightarrow> 'w client \<Rightarrow> jsval \<Rightarrow> ('w, jsval) prog" where
  "getApiKey env client userId =
     and_then (query client
        (Select ''voiceflow_api_keys'' ''api_key'' [(''user_id'', userId)] (Some 1))) (\<lambda>res.
     if no_rows (data res) then return (env_value (VOICEFLOW_API_KEY env))
     else and_then (lift (first_row (data res))) (\<lambda>row. lift (get_prop row ''api_key'')))"

text \<open>The local variables that later parts of the function read.\<close>

record locals =
  connection :: jsval
  session :: jsval
  conversationId :: jsval
  processedMessage :: jsval
  savedMessage :: jsval
  apiKey :: jsval
  voiceflowRequest :: jsval

text \<open>Lines 45 to 186: everything before the call of the AI backend.\<close>

definition prepare ::
  "'w env \<Rightarrow> 'w client \<Rightarrow> jsval \<Rightarrow> jsval \<Rightarrow> jsval \<Rightarrow> jsval \<Rightarrow> jsval \<Rightarrow> jsval
     \<Rightarrow> ('w, locals) prog" where
  "prepare env client userId platform senderId recipientId message timestamp =
     and_then (retryWithBackoff env (getSocialConnection client userId platform recipientId)
                 (transient_retry env 3 300)) (\<lambda>connection.
     and_then (call env ''getOrCreateSession'' [userId, senderId, platform]) (\<lambda>session.
     and_then (retryWithBackoff env
                 (getOrCreateConversation env client userId platform senderId timestamp session)
                 (transient_retry env 3 300)) (\<lambda>conversation.
     and_then (lift (get_prop conversation ''id'')) (\<lambda>conversationId.
     and_then (lift (get_prop session ''id'')) (\<lambda>sid.
     and_then (call env ''linkSessionToConversation'' [conversationId, sid]) (\<lambda>_.
     and_then (call env ''processMetaMessage'' [message, platform]) (\<lambda>processedMessage.
     and_then (retryWithBackoff env
                 (saveUserMessage env client conversationId processedMessage message timestamp)
                 (transient_retry env 2 300)) (\<lambda>savedMessage.
     and_then (lift (get_prop session ''id'')) (\<lambda>sid.
     and_then (lift (get_prop processedMessage ''text'')) (\<lambda>text.
     and_then (call env ''updateSessionContext'' [sid, JObj [(''lastUserMessage'', text)]]) (\<lambda>_.
     and_then (retryWithBackoff env (getVoiceflowMapping client userId)
                 (transient_retry env 2 300)) (\<lambda>voiceflowMapping.
     and_then (retryWithBackoff env (getApiKey env client userId)
                 (transient_retry env 2 300)) (\<lambda>apiKey.
     if \<not> truthy apiKey then throw (new_Error ''No Voiceflow API key found'')
     else
     and_then (lift (get_prop savedMessage ''id'')) (\<lambda>messageId.
     and_then (to_iso env timestamp) (\<lambda>iso.
     and_then (lift (get_prop session ''id'')) (\<lambda>sid.
     and_then (call env ''prepareVoiceflowContext''
                 [sid, JObj [(''messageId'', messageId), (''participantId'', senderId),
                             (''platform'', platform), (''conversationId'', conversationId),
                             (''timestamp'', iso)]]) (\<lambda>voiceflowContext.
     and_then (call env ''prepareVoiceflowRequest'' [processedMessage, voiceflowContext])
       (\<lambda>voiceflowRequest.
     return \<lparr>connection = connection, session = session, conversationId = conversationId,
             processedMessage = processedMessage, savedMessage = savedMessage,
             apiKey = apiKey, voiceflowRequest = voiceflowRequest\<rparr>))))))))))))))))))"

text \<open>
  Lines 189 to 210: the call of the AI backend and its retry predicate
  \<^verbatim>\<open>isTransientError(error) || (error.response && error.response.status >= 500)\<close>.
  A status is a number; for any other value the comparison is taken to be false.
\<close>

definition at_least_500 :: "jsval \<Rightarrow> bool" where
  "at_least_500 status = (case status of JNum n \<Rightarrow> n \<ge> 500 | _ \<Rightarrow> False)"

definition voiceflow_should_retry :: "'w env \<Rightarrow> jsval \<Rightarrow> ('w, bool) prog" where
  "voiceflow_should_retry env err =
     and_then (call env ''isTransientError'' [err]) (\<lambda>transient.
     if truthy transient then return True
     else
       and_then (lift (get_prop err ''response'')) (\<lambda>response.
       if \<not> truthy response then return False
       else and_then (lift (get_prop response ''status'')) (\<lambda>status.
            return (at_least_500 status))))"

definition voiceflow_retry :: "'w env \<Rightarrow> 'w retry_options" where
  "voiceflow_retry env =
     \<lparr>maxRetries = 3, initialDelay = 1000, maxDelay = Some 5000,
      shouldRetry = Some (voiceflow_should_retry env)\<rparr>"

definition voiceflow_url :: "jsval \<Rightarrow> string" where
  "voiceflow_url userId =
     ''https://general-runtime.voiceflow.com/state/user/'' @ to_string userId @ ''/interact''"

definition callVoiceflow :: "'w env \<Rightarrow> jsval \<Rightarrow> locals \<Rightarrow> ('w, jsval) prog" where
  "callVoiceflow env userId c =
     post env (voiceflow_url userId) (voiceflowRequest c)
       (JObj [(''headers'',
                JObj [(''Authorization'', JStr (''Bearer '' @ to_string (apiKey c))),
                      (''Content-Type'', JStr ''application/json'')]),
              (''timeout'', JNum 15000)])"

text \<open>Lines 217 to 225: the \<^verbatim>\<open>catch\<close> block around the call of the AI backend.\<close>

definition dead_letter ::
  "jsval \<Rightarrow> jsval \<Rightarrow> jsval \<Rightarrow> jsval \<Rightarrow> jsval \<Rightarrow> jsval \<Rightarrow> jsval \<Rightarrow> jsval \<Rightarrow> request" where
  "dead_letter userId text errorMessage platform conversation_id messageId timestamp sessionId =
     Helper ''saveToDeadLetterQueue''
       [userId, text, errorMessage,
        JObj [(''platform'', platform), (''conversationId'', conversation_id),
              (''messageId'', messageId), (''timestamp'', timestamp),
              (''sessionId'', sessionId)]]"

definition ai_failure :: jsval where
  "ai_failure = new_Error ''Failed to process message with AI assistant after multiple attempts''"

definition record_failure ::
  "'w env \<Rightarrow> jsval \<Rightarrow> jsval \<Rightarrow> jsval \<Rightarrow> locals \<Rightarrow> jsval \<Rightarrow> ('w, jsval) prog" where
  "record_failure env userId platform timestamp c voiceflowError =
     and_then (lift (get_prop (processedMessage c) ''text'')) (\<lambda>text.
     and_then (lift (get_prop voiceflowError ''message'')) (\<lambda>errorMessage.
     and_then (lift (get_prop (savedMessage c) ''id'')) (\<lambda>messageId.
     and_then (lift (get_prop (session c) ''id'')) (\<lambda>sessionId.
     and_then (call env ''saveToDeadLetterQueue''
                 [userId, text, errorMessage,
                  JObj [(''platform'', platform), (''conversationId'', conversationId c),
                        (''messageId'', messageId), (''timestamp'', timestamp),
                        (''sessionId'', sessionId)]]) (\<lambda>_.
     throw ai_failure)))))"

text \<open>Lines 203 to 225.\<close>

definition ask_voiceflow ::
  "'w env \<Rightarrow> jsval \<Rightarrow> jsval \<Rightarrow> jsval \<Rightarrow> locals \<Rightarrow> ('w, jsval) prog" where
  "ask_voiceflow env userId platform timestamp c =
     try_catch
       (and_then (retryWithBackoff env (callVoiceflow env userId c) (voiceflow_retry env))
          (\<lambda>voiceflowResponse.
        and_then (lift (get_prop voiceflowResponse ''data'')) (\<lambda>reply.
        and_then (lift (extractContextFromVoiceflowResponse reply)) (\<lambda>contextUpdates.
        and_then (if contextUpdates \<noteq> []
                  then and_then (lift (get_prop (session c) ''id'')) (\<lambda>sid.
                       call env ''updateSessionContext'' [sid, JObj contextUpdates])
                  else return JUndefined) (\<lambda>_.
        and_then (lift (get_prop (session c) ''id'')) (\<lambda>sid.
        and_then (call env ''extendSession'' [sid]) (\<lambda>_.
        return voiceflowResponse)))))))
       (record_failure env userId platform timestamp c)"

text \<open>Lines 227 to 243: the reply is formatted and saved as the assistant's message.\<close>

definition saveAssistantMessage ::
  "'w env \<Rightarrow> 'w client \<Rightarrow> jsval \<Rightarrow> jsval \<Rightarrow> ('w, jsval) prog" where
  "saveAssistantMessage env client conversation_id formattedResponse =
     and_then (lift (get_prop formattedResponse ''text'')) (\<lambda>content.
     and_then (now_iso env) (\<lambda>sent_at.
     and_then (query client
        (Insert ''messages''
           (JObj [(''conversation_id'', conversation_id), (''content'', content),
                  (''sender_type'', JStr ''assistant''), (''sent_at'', sent_at)]))) (\<lambda>res.
     if truthy (error res) then throw (error res)
     else lift (first_row (data res)))))"

definition default_retry :: "nat \<Rightarrow> nat \<Rightarrow> 'w retry_options" where
  "default_retry n d = \<lparr>maxRetries = n, initialDelay = d, maxDelay = None, shouldRetry = None\<rparr>"

definition save_reply ::
  "'w env \<Rightarrow> 'w client \<Rightarrow> locals \<Rightarrow> jsval \<Rightarrow> ('w, jsval \<times> jsval) prog" where
  "save_reply env client c voiceflowResponse =
     and_then (lift (get_prop voiceflowResponse ''data'')) (\<lambda>reply.
     and_then (call env ''formatVoiceflowResponse'' [reply]) (\<lambda>formattedResponse.
     and_then (retryWithBackoff env
                 (saveAssistantMessage env client (conversationId c) formattedResponse)
                 (default_retry 2 300)) (\<lambda>assistantMessage.
     and_then (lift (get_prop (session c) ''id'')) (\<lambda>sid.
     and_then (lift (get_prop formattedResponse ''text'')) (\<lambda>text.
     and_then (call env ''updateSessionContext'' [sid, JObj [(''lastAssistantMessage'', text)]])
       (\<lambda>_.
     return (formattedResponse, assistantMessage)))))))"

text \<open>Lines 245 to 285: the reply is sent through the channel's send API.\<close>

definition send_body :: "jsval \<Rightarrow> jsval \<Rightarrow> jsval" where
  "send_body senderId formattedResponse =
     JObj [(''recipient'', JObj [(''id'', senderId)]), (''message'', formattedResponse),
           (''messaging_type'', JStr ''RESPONSE'')]"

definition send_config :: "jsval \<Rightarrow> jsval" where
  "send_config accessToken =
     JObj [(''params'', JObj [(''access_token'', accessToken)]), (''timeout'', JNum 10000)]"

definition sendResponse ::
  "'w env \<Rightarrow> jsval \<Rightarrow> jsval \<Rightarrow> locals \<Rightarrow> jsval \<Rightarrow> jsval \<Rightarrow> ('w, jsval) prog" where
  "sendResponse env platform senderId c formattedResponse accessToken =
     (if platform = JStr ''facebook''
      then post env ''https://graph.facebook.com/v18.0/me/messages''
             (send_body senderId formattedResponse) (send_config accessToken)
      else if platform = JStr ''instagram''
      then and_then (lift (get_prop (connection c) ''ig_account_id'')) (\<lambda>ig_account_id.
           post env (''https://graph.facebook.com/v18.0/'' @ to_string ig_account_id @ ''/messages'')
             (send_body senderId formattedResponse) (send_config accessToken))
      else return JUndefined)"

definition delivered :: "locals \<Rightarrow> jsval \<Rightarrow> ('w, jsval) prog" where
  "delivered c assistantMessage =
     and_then (lift (get_prop assistantMessage ''id'')) (\<lambda>messageId.
     and_then (lift (get_prop (session c) ''id'')) (\<lambda>sessionId.
     return (JObj [(''success'', JBool True), (''messageId'', messageId),
                   (''sessionId'', sessionId)])))"

definition undelivered :: "locals \<Rightarrow> jsval \<Rightarrow> jsval \<Rightarrow> ('w, jsval) prog" where
  "undelivered c assistantMessage sendError =
     and_then (console ''error'' ''Failed to send response after retries:'') (\<lambda>_.
     and_then (lift (get_prop assistantMessage ''id'')) (\<lambda>messageId.
     and_then (lift (get_prop (session c) ''id'')) (\<lambda>sessionId.
     return (JObj [(''success'', JBool True),
                   (''warning'', JStr ''Message processed but failed to deliver to user''),
                   (''messageId'', messageId), (''sessionId'', sessionId)]))))"

definition deliver ::
  "'w env \<Rightarrow> jsval \<Rightarrow> jsval \<Rightarrow> locals \<Rightarrow> jsval \<Rightarrow> jsval \<Rightarrow> ('w, jsval) prog" where
  "deliver env platform senderId c formattedResponse assistantMessage =
     and_then (lift (get_prop (connection c) ''access_token'')) (\<lambda>accessToken.
     try_else
       (retryWithBackoff env (sendResponse env platform senderId c formattedResponse accessToken)
          (transient_retry env 3 1000))
       (\<lambda>_. delivered c assistantMessage)
       (undelivered c assistantMessage))"

text \<open>Lines 287 to 294: the \<^verbatim>\<open>catch\<close> block of the function.\<close>

definition report_failure :: "'w env \<Rightarrow> jsval \<Rightarrow> jsval \<Rightarrow> jsval \<Rightarrow> ('w, jsval) prog" where
  "report_failure env userId platform err =
     and_then (call env ''processError''
                 [err, JObj [(''userId'', userId), (''platform'', platform),
                             (''senderId'', JNull), (''recipientId'', JNull)]]) (\<lambda>errorDetails.
     and_then (console ''error'' ''Failed to process message:'') (\<lambda>_.
     and_then (lift (get_prop errorDetails ''isTransient'')) (\<lambda>isTransient.
     and_then (lift (get_prop err ''message'')) (\<lambda>msg.
     if truthy isTransient
     then return (JObj [(''success'', JBool False), (''error'', msg),
                        (''transient'', JBool True), (''shouldRetry'', JBool True)])
     else return (JObj [(''success'', JBool False), (''error'', msg)])))))"

definition processMessage ::
  "'w env \<Rightarrow> jsval \<Rightarrow> jsval \<Rightarrow> jsval \<Rightarrow> jsval \<Rightarrow> jsval \<Rightarrow> jsval \<Rightarrow> ('w, jsval) prog" where
  "processMessage env userId platform senderId recipientId message timestamp =
     try_catch
       (case supabase env of
          None \<Rightarrow> throw (new_Error ''Database connection is not available'')
        | Some client \<Rightarrow>
            and_then (prepare env client userId platform senderId recipientId message timestamp)
              (\<lambda>c.
            and_then (ask_voiceflow env userId platform timestamp c) (\<lambda>voiceflowResponse.
            and_then (save_reply env client c voiceflowResponse)
              (\<lambda>(formattedResponse, assistantMessage).
            deliver env platform senderId c formattedResponse assistantMessage))))
       (report_failure env userId platform)"

section \<open>The ingestion handler\<close>

text \<open>\<^verbatim>\<open>exports.handler\<close>, lines 324 to 463.\<close>

definition handler_cors :: "(string \<times> string) list" where
  "handler_cors =
     [(''Access-Control-Allow-Origin'', ''*''),
      (''Access-Control-Allow-Headers'', ''Content-Type, X-Hub-Signature, X-Hub-Signature-256''),
      (''Access-Control-Allow-Methods'', ''GET, POST, OPTIONS'')]"

definition reply :: "nat \<Rightarrow> jsval \<Rightarrow> response" where
  "reply status v = \<lparr>statusCode = status, resp_headers = handler_cors, resp_body = Stringified v\<rparr>"

definition queue_args ::
  "string \<Rightarrow> string \<Rightarrow> jsval \<Rightarrow> jsval \<Rightarrow> jsval \<Rightarrow> jsval \<Rightarrow> jsval list" where
  "queue_args userId platform senderId recipientId message timestamp =
     [JStr userId, JStr platform, senderId, recipientId, message, timestamp]"

text \<open>Lines 420 to 424: an Instagram change of field \<^verbatim>\<open>messages\<close>.\<close>

definition queue_instagram ::
  "'w env \<Rightarrow> string \<Rightarrow> string \<Rightarrow> jsval \<Rightarrow> jsval list \<Rightarrow> ('w, jsval list) prog" where
  "queue_instagram env userId platform evt queueResults =
     and_then (lift (get_prop evt ''value'')) (\<lambda>v.
     and_then (call env ''processInstagramMessage'' [v]) (\<lambda>parts.
     and_then (lift (get_prop parts ''senderId'')) (\<lambda>senderId.
     and_then (lift (get_prop parts ''recipientId'')) (\<lambda>recipientId.
     and_then (lift (get_prop parts ''message'')) (\<lambda>message.
     and_then (lift (get_prop parts ''timestamp'')) (\<lambda>timestamp.
     and_then (call env ''queueMessage''
                 (queue_args userId platform senderId recipientId message timestamp))
       (\<lambda>queueResult.
     and_then (lift (get_prop queueResult ''id'')) (\<lambda>queueId.
     return (queueResults @
               [JObj [(''success'', JBool True), (''queueId'', queueId),
                      (''platform'', JStr ''instagram'')]])))))))))"

text \<open>Lines 425 to 430 and 431 to 437: a Facebook message, a Facebook postback.\<close>

definition queue_facebook ::
  "'w env \<Rightarrow> string \<Rightarrow> string \<Rightarrow> jsval \<Rightarrow> ('w, jsval) prog \<Rightarrow> string \<Rightarrow> jsval list
     \<Rightarrow> ('w, jsval list) prog" where
  "queue_facebook env userId platform evt make_message kind queueResults =
     and_then (lift (get_prop evt ''sender'')) (\<lambda>sender.
     and_then (lift (get_prop sender ''id'')) (\<lambda>senderId.
     and_then (lift (get_prop evt ''recipient'')) (\<lambda>recipient.
     and_then (lift (get_prop recipient ''id'')) (\<lambda>recipientId.
     and_then (lift (get_prop evt ''timestamp'')) (\<lambda>timestamp.
     and_then make_message (\<lambda>message.
     and_then (call env ''queueMessage''
                 (queue_args userId platform senderId recipientId message timestamp))
       (\<lambda>queueResult.
     and_then (lift (get_prop queueResult ''id'')) (\<lambda>queueId.
     return (queueResults @
               [JObj [(''success'', JBool True), (''queueId'', queueId),
                      (''platform'', JStr ''facebook''), (''type'', JStr kind)]])))))))))"

definition postbackMessage :: "'w env \<Rightarrow> jsval \<Rightarrow> ('w, jsval) prog" where
  "postbackMessage env evt =
     and_then (call env ''Date.now'' []) (\<lambda>now.
     and_then (lift (get_prop evt ''postback'')) (\<lambda>postback.
     return (JObj [(''mid'', JStr (''postback-'' @ to_string now)), (''postback'', postback)])))"

text \<open>
  The three conditions of lines 420, 425 and 431. \<^verbatim>\<open>&&\<close> evaluates its right operand only
  when the left one is truthy.
\<close>

definition is_instagram_message :: "string \<Rightarrow> jsval \<Rightarrow> ('w, bool) prog" where
  "is_instagram_message platform evt =
     (if platform = ''instagram''
      then and_then (lift (get_prop evt ''field'')) (\<lambda>field. return (field = JStr ''messages''))
      else return False)"

definition is_facebook_message :: "string \<Rightarrow> jsval \<Rightarrow> ('w, bool) prog" where
  "is_facebook_message platform evt =
     (if platform = ''facebook''
      then and_then (lift (get_prop evt ''message'')) (\<lambda>message.
           if truthy message
           then and_then (lift (get_prop message ''is_echo'')) (\<lambda>is_echo.
                return (\<not> truthy is_echo))
           else return False)
      else return False)"

definition is_facebook_postback :: "string \<Rightarrow> jsval \<Rightarrow> ('w, bool) prog" where
  "is_facebook_postback platform evt =
     (if platform = ''facebook''
      then and_then (lift (get_prop evt ''postback'')) (\<lambda>postback. return (truthy postback))
      else return False)"

text \<open>Lines 419 to 439: the body of the inner loop, for one event.\<close>

definition process_event ::
  "'w env \<Rightarrow> string \<Rightarrow> string \<Rightarrow> jsval \<Rightarrow> jsval list \<Rightarrow> ('w, jsval list) prog" where
  "process_event env userId platform evt queueResults =
     and_then (is_instagram_message platform evt) (\<lambda>instagram.
     if instagram then queue_instagram env userId platform evt queueResults
     else
       and_then (is_facebook_message platform evt) (\<lambda>fb_message.
       if fb_message
       then queue_facebook env userId platform evt (lift (get_prop evt ''message'')) ''message''
              queueResults
       else
         and_then (is_facebook_postback platform evt) (\<lambda>fb_postback.
         if fb_postback
         then queue_facebook env userId platform evt (postbackMessage env evt) ''postback''
                queueResults
         else return queueResults)))"

text \<open>Lines 416 to 440: the body of the outer loop, for one entry.\<close>

definition process_entry ::
  "'w env \<Rightarrow> string \<Rightarrow> string \<Rightarrow> jsval \<Rightarrow> jsval list \<Rightarrow> ('w, jsval list) prog" where
  "process_entry env userId platform entry queueResults =
     and_then (lift (get_prop entry ''messaging'')) (\<lambda>messaging.
     and_then (if truthy messaging then return messaging
               else lift (get_prop entry ''changes'')) (\<lambda>messagingEvents.
     if \<not> truthy messagingEvents then return queueResults
     else and_then (lift (iterate ''messagingEvents'' messagingEvents)) (\<lambda>evts.
          for_each (process_event env userId platform) evts queueResults)))"

text \<open>Lines 405 to 453: the parsed payload.\<close>

definition process_payload ::
  "'w env \<Rightarrow> string \<Rightarrow> string \<Rightarrow> jsval \<Rightarrow> ('w, response) prog" where
  "process_payload env userId platform payload_data =
     and_then (lift (get_prop payload_data ''object'')) (\<lambda>object.
     if \<not> truthy object \<or> (object \<noteq> JStr ''page'' \<and> object \<noteq> JStr ''instagram'')
     then return (reply 200 (JObj [(''status'', JStr ''ignored''),
                                   (''message'', JStr ''Not a messaging webhook event'')]))
     else
       and_then (console ''log'' ''Received webhook event:'') (\<lambda>_.
       and_then (lift (get_prop payload_data ''entry'')) (\<lambda>entry.
       and_then (lift (iterate ''data.entry'' entry)) (\<lambda>entry_list.
       and_then (for_each (process_entry env userId platform) entry_list []) (\<lambda>queueResults.
       and_then (call env ''processPendingMessages'' [JNum 2]) (\<lambda>processingResults.
       and_then (lift (get_prop processingResults ''processed'')) (\<lambda>processed.
       return (reply 200
                 (JObj [(''status'', JStr ''success''),
                        (''message'', JStr ''Webhook events received and queued for processing''),
                        (''queued'', JNum (int (length queueResults))),
                        (''processed'', processed)])))))))))"

text \<open>Lines 455 to 462: the \<^verbatim>\<open>catch\<close> block of the handler.\<close>

definition swallow :: "jsval \<Rightarrow> ('w, response) prog" where
  "swallow err =
     and_then (console ''error'' ''Error handling webhook event:'') (\<lambda>_.
     and_then (lift (get_prop err ''message'')) (\<lambda>msg.
     return (reply 200 (JObj [(''status'', JStr ''error''),
                              (''message'', JStr ''Error processing webhook''),
                              (''error'', msg)]))))"

text \<open>
  Lines 394 to 462. \<^verbatim>\<open>processPendingMessages(processMessage, 2)\<close> belongs to
  \<^verbatim>\<open>./message-queue\<close>: its call is one request, and what it does with the callback
  happens in the world.
\<close>

definition handle_payload :: "'w env \<Rightarrow> string \<Rightarrow> string \<Rightarrow> jsval \<Rightarrow> ('w, response) prog" where
  "handle_payload env userId platform raw =
     try_catch
       (try_else (call env ''JSON.parse'' [raw])
          (process_payload env userId platform)
          (\<lambda>e. return (reply 400 (JObj [(''error'',
                                         JStr ''Invalid request body. JSON parsing failed.'')]))))
       swallow"

text \<open>Lines 370 to 391: the tenant and the channel are read from the path.\<close>

definition webhook_path :: "string \<Rightarrow> string option \<times> string option" where
  "webhook_path p =
     (let pathSegments = split_on CHR ''/'' p in
      if length pathSegments \<ge> 5 \<and> pathSegments ! 2 = ''webhooks''
      then (Some (pathSegments ! 3), Some (pathSegments ! 4))
      else (None, None))"

definition bad_url :: "('w, response) prog" where
  "bad_url =
     and_then (console ''error'' ''Missing userId or platform in webhook URL:'') (\<lambda>_.
     return (reply 400 (JObj [(''error'',
       JStr ''Invalid webhook URL format. Expected /api/webhooks/{userId}/{platform}/{timestamp}'')])))"

definition route :: "'w env \<Rightarrow> event \<Rightarrow> ('w, response) prog" where
  "route env ev =
     (case webhook_path (path ev) of
        (Some userId, Some platform) \<Rightarrow>
          if userId = [] \<or> platform = [] then bad_url
          else if platform \<noteq> ''facebook'' \<and> platform \<noteq> ''instagram''
          then return (reply 400 (JObj [(''error'',
                 JStr ''Invalid platform. Expected \"facebook\" or \"instagram\".'')]))
          else handle_payload env userId platform (body ev)
      | _ \<Rightarrow> bad_url)"

text \<open>Lines 351 to 367: the signature of the raw body is checked when a secret is set.\<close>

definition no_secret_warning :: request where
  "no_secret_warning =
     Console ''warn'' ''No META_APP_SECRET environment variable set. Skipping signature validation!''"

definition validate :: "'w env \<Rightarrow> event \<Rightarrow> string \<Rightarrow> ('w, response) prog" where
  "validate env ev appSecret =
     and_then (call env ''validateWebhook'' [headers ev, body ev, JStr appSecret])
       (\<lambda>validationResult.
     and_then (lift (get_prop validationResult ''valid'')) (\<lambda>valid.
     if \<not> truthy valid
     then and_then (lift (get_prop validationResult ''message'')) (\<lambda>details.
          and_then (console ''error'' ''Invalid webhook signature:'') (\<lambda>_.
          return (reply 401 (JObj [(''error'', JStr ''Invalid webhook signature''),
                                   (''details'', details)]))))
     else and_then (console ''log'' ''Webhook signature verified using:'') (\<lambda>_.
          route env ev)))"

definition authenticate :: "'w env \<Rightarrow> event \<Rightarrow> ('w, response) prog" where
  "authenticate env ev =
     (case META_APP_SECRET env of
        None \<Rightarrow> and_then (emit no_secret_warning) (\<lambda>_. route env ev)
      | Some appSecret \<Rightarrow>
          if appSecret = [] then and_then (emit no_secret_warning) (\<lambda>_. route env ev)
          else validate env ev appSecret)"

definition handler :: "'w env \<Rightarrow> event \<Rightarrow> ('w, response) prog" where
  "handler env ev =
     (if httpMethod ev = ''OPTIONS''
      then return \<lparr>statusCode = 204, resp_headers = handler_cors, resp_body = Absent\<rparr>
      else if httpMethod ev = ''GET''
      then return (verification_handler (verification_supabase env) ev)
      else if httpMethod ev \<noteq> ''POST''
      then return (reply 405 (JObj [(''error'',
             JStr ''Method not allowed. Please use POST for webhook events.'')]))
      else authenticate env ev)"

section \<open>Outcomes of a program\<close>

text \<open>
  \<open>outcome m Q E\<close>: from every state, a value returned by \<open>m\<close> satisfies \<open>Q\<close> and a value
  thrown by \<open>m\<close> satisfies \<open>E\<close>.
\<close>

definition outcome :: "('w, 'a) prog \<Rightarrow> ('a \<Rightarrow> bool) \<Rightarrow> (jsval \<Rightarrow> bool) \<Rightarrow> bool" where
  "outcome m Q E = (\<forall>s. case m s of (Inr x, s') \<Rightarrow> Q x | (Inl e, s') \<Rightarrow> E e)"

definition is_object :: "jsval \<Rightarrow> bool" where
  "is_object e = (\<not> nullish e)"

section \<open>Update signals, in the words of the specification\<close>



text \<open>
  An opener that is not closed: the text \<^verbatim>\<open>[[SET:\<close>, a non-empty run of key characters
  and \<^verbatim>\<open>=\<close>, with no \<^verbatim>\<open>]\<close> anywhere after it. \<open>unclosed_opener s\<close> holds when one starts at
  some position of \<open>s\<close>. A marker placed after such a text belongs to the value of that
  opener.
\<close>

definition opens_here :: "string \<Rightarrow> bool" where
  "opens_here s =
     (case strip_prefix ''[[SET:'' s of
        None \<Rightarrow> False
      | Some s1 \<Rightarrow>
          takeWhile key_char s1 \<noteq> []
          \<and> (case dropWhile key_char s1 of
                [] \<Rightarrow> False
              | c # w \<Rightarrow> c = CHR ''='' \<and> CHR '']'' \<notin> set w))"

fun unclosed_opener :: "string \<Rightarrow> bool" where
  "unclosed_opener [] = False"
| "unclosed_opener (c # cs) = (opens_here (c # cs) \<or> unclosed_opener cs)"

section \<open>What an invocation did\<close>

text \<open>
  Three kinds of request that the claims about failures speak of: a write to the
  dead-letter recorder, the insertion of an assistant message, and a send through the
  channel's API (both channels post to \<^verbatim>\<open>https://graph.facebook.com/\<close>).
\<close>

definition is_dead_letter :: "request \<Rightarrow> bool" where
  "is_dead_letter r = (case r of Helper name args \<Rightarrow> name = ''saveToDeadLetterQueue'' | _ \<Rightarrow> False)"

definition is_assistant_insert :: "request \<Rightarrow> bool" where
  "is_assistant_insert r =
     (case r of
        Query (Insert table row) \<Rightarrow>
          table = ''messages'' \<and> get_prop row ''sender_type'' = Inr (JStr ''assistant'')
      | _ \<Rightarrow> False)"

definition is_outbound_send :: "request \<Rightarrow> bool" where
  "is_outbound_send r =
     (case r of Post url payload config \<Rightarrow> take 27 url = ''https://graph.facebook.com/'' | _ \<Rightarrow> False)"

definition quiet :: "request \<Rightarrow> bool" where
  "quiet r = (\<not> is_dead_letter r \<and> \<not> is_assistant_insert r \<and> \<not> is_outbound_send r)"

text \<open>
  \<open>emits P m\<close>: whatever \<open>m\<close> does, it only appends requests to the trace, and each of them
  satisfies \<open>P\<close>. \<open>performs R m\<close>: when \<open>m\<close> returns a value, it has appended a request that
  satisfies \<open>R\<close>.
\<close>

definition emits :: "(request \<Rightarrow> bool) \<Rightarrow> ('w, 'a) prog \<Rightarrow> bool" where
  "emits P m = (\<forall>s. \<exists>t. trace (snd (m s)) = trace s @ t \<and> list_all P t)"

definition performs :: "(request \<Rightarrow> bool) \<Rightarrow> ('w, 'a) prog \<Rightarrow> bool" where
  "performs R m =
     (\<forall>s x s'. m s = (Inr x, s') \<longrightarrow> (\<exists>t. trace s' = trace s @ t \<and> list_ex R t))"

text \<open>
  The request that records a reply: the insertion, into \<^verbatim>\<open>messages\<close>, of an assistant
  message of the conversation whose content is the text of the formatted reply.
\<close>

definition records_reply :: "jsval \<Rightarrow> jsval \<Rightarrow> request \<Rightarrow> bool" where
  "records_reply conversation_id formattedResponse r =
     (case r of
        Query (Insert table row) \<Rightarrow>
          table = ''messages''
          \<and> get_prop row ''sender_type'' = Inr (JStr ''assistant'')
          \<and> get_prop row ''conversation_id'' = Inr conversation_id
          \<and> get_prop row ''content'' = get_prop formattedResponse ''text''
      | _ \<Rightarrow> False)"

section \<open>Example inputs\<close>

text \<open>A handshake request for tenant \<^verbatim>\<open>T1\<close> on Facebook, and data stores to answer it.\<close>

definition handshake_request :: event where
  "handshake_request =
     \<lparr>httpMethod = ''GET'', path = ''/api/webhooks/T1/facebook/1700000000'',
      queryStringParameters =
        Some [''hub.mode'' \<mapsto> ''subscribe'', ''hub.verify_token'' \<mapsto> ''s3cret'',
              ''hub.challenge'' \<mapsto> ''1158201444''],
      headers = JObj [], body = JNull\<rparr>"

definition unsubscribe_request :: event where
  "unsubscribe_request =
     handshake_request\<lparr>queryStringParameters := Some [''hub.mode'' \<mapsto> ''unsubscribe'']\<rparr>"

definition inactive_config :: webhook_config where
  "inactive_config =
     \<lparr>config_id = ''c1'', config_user_id = ''T1'', config_platform = ''facebook'',
      verification_token = ''s3cret'', is_active = False\<rparr>"

definition inactive_client :: supabase_client where
  "inactive_client = \<lparr>webhook_configs = [inactive_config], failure = None\<rparr>"

definition active_client :: supabase_client where
  "active_client =
     \<lparr>webhook_configs = [inactive_config\<lparr>config_id := ''c2'', is_active := True\<rparr>],
      failure = None\<rparr>"

definition other_client :: supabase_client where
  "other_client =
     \<lparr>webhook_configs = [inactive_config\<lparr>verification_token := ''other'', is_active := True\<rparr>],
      failure = None\<rparr>"


definition echo_event :: jsval where
  "echo_event =
     JObj [(''sender'', JObj [(''id'', JStr ''P1'')]),
           (''recipient'', JObj [(''id'', JStr ''S1'')]),
           (''timestamp'', JNum 1700000000000),
           (''message'', JObj [(''mid'', JStr ''m1''), (''is_echo'', JBool True),
                               (''text'', JStr ''Hi there'')])]"

definition echo_postback_event :: jsval where
  "echo_postback_event =
     JObj [(''sender'', JObj [(''id'', JStr ''P1'')]),
           (''recipient'', JObj [(''id'', JStr ''S1'')]),
           (''timestamp'', JNum 1700000000000),
           (''message'', JObj [(''mid'', JStr ''m1''), (''is_echo'', JBool True)]),
           (''postback'', JObj [(''payload'', JStr ''GET_STARTED'')])]"

text \<open>
  Collaborators that always succeed: the clock reads 1700000000000, the queue stores the
  message as row \<^verbatim>\<open>q1\<close>, the parser knows two request bodies and rejects any other, and the signature check
  rejects. The world has no state of its own.
\<close>

definition page_body :: string where
  "page_body = ''{\"object\":\"page\",\"entry\":[]}''"

definition page_payload :: jsval where
  "page_payload = JObj [(''object'', JStr ''page''), (''entry'', JArr [])]"

definition no_entry_body :: string where
  "no_entry_body = ''{\"object\":\"page\"}''"

definition no_entry_payload :: jsval where
  "no_entry_payload = JObj [(''object'', JStr ''page'')]"

definition truncated_body :: string where
  "truncated_body = ''{\"object\":''"

definition syntax_error :: jsval where
  "syntax_error =
     JObj [(''name'', JStr ''SyntaxError''), (''message'', JStr ''Unexpected token in JSON'')]"

definition rejected :: jsval where
  "rejected = JObj [(''valid'', JBool False), (''message'', JStr ''Signature mismatch'')]"

definition steady_helper :: "string \<Rightarrow> jsval list \<Rightarrow> unit \<Rightarrow> (jsval + jsval) \<times> unit" where
  "steady_helper name args w =
     (if name = ''Date.now'' then (Inr (JNum 1700000000000), w)
      else if name = ''queueMessage'' then (Inr (JObj [(''id'', JStr ''q1'')]), w)
      else if name = ''processPendingMessages'' then (Inr (JObj [(''processed'', JNum 0)]), w)
      else if name = ''validateWebhook'' then (Inr rejected, w)
      else if name = ''JSON.parse''
      then (if args = [JStr page_body] then Inr page_payload
            else if args = [JStr no_entry_body] then Inr no_entry_payload
            else Inl syntax_error, w)
      else (Inr JUndefined, w))"

definition steady_env :: "unit env" where
  "steady_env =
     \<lparr>supabase = None, helper = steady_helper,
      axios_post = (\<lambda>url payload config w. (Inr JUndefined, w)),
      META_APP_SECRET = None, VOICEFLOW_API_KEY = None, verification_supabase = None\<rparr>"

definition start :: "unit state" where
  "start = \<lparr>world = (), trace = []\<rparr>"

definition webhook_post :: "string \<Rightarrow> event" where
  "webhook_post raw =
     \<lparr>httpMethod = ''POST'', path = ''/api/webhooks/T1/facebook/1700000000'',
      queryStringParameters = None,
      headers = JObj [(''x-hub-signature-256'', JStr ''sha256=00'')], body = JStr raw\<rparr>"

text \<open>
  Replies of the AI backend: one whose text sets the same key twice, one with a
  \<^verbatim>\<open>set-variables\<close> item followed by a text with brackets and two markers, and one whose
  marker follows an opener that is not closed.
\<close>

definition text_item :: "string \<Rightarrow> jsval" where
  "text_item msg = JObj [(''type'', JStr ''text''), (''payload'', JObj [(''message'', JStr msg)])]"





definition swallowed_reply :: jsval where
  "swallowed_reply = JArr [text_item ''[[SET:a=[[SET:k=v]]'']"

text \<open>
  A tenant \<^verbatim>\<open>T1\<close> with a Facebook page \<^verbatim>\<open>P1\<close>, a conversation \<^verbatim>\<open>conv1\<close> with the
  sender \<^verbatim>\<open>S1\<close>, a session \<^verbatim>\<open>sess1\<close> and no API key of its own. The data store and the
  helper modules always succeed and classify every error as transient. The send API of
  the channel is unreachable; the AI backend answers when \<open>ai_up\<close> holds and times out
  otherwise.
\<close>

definition hello_message :: jsval where
  "hello_message = JObj [(''mid'', JStr ''m.1''), (''text'', JStr ''Hello'')]"

definition pipeline_rows :: "db_request \<Rightarrow> jsval list option" where
  "pipeline_rows q =
     (case q of
        Select table cols filters limit \<Rightarrow>
          if table = ''social_connections''
          then Some [JObj [(''id'', JStr ''conn1''), (''access_token'', JStr ''EAAB''),
                           (''fb_page_id'', JStr ''P1'')]]
          else if table = ''conversations'' then Some [JObj [(''id'', JStr ''conv1'')]]
          else if table = ''voiceflow_mappings'' then Some [JObj [(''id'', JStr ''map1'')]]
          else Some []
      | Insert table row \<Rightarrow>
          Some [JObj [(''id'', JStr (if get_prop row ''sender_type'' = Inr (JStr ''user'')
                                    then ''msg1'' else ''msg2''))]]
      | Update table vals filters \<Rightarrow> None)"

definition pipeline_client :: "unit client" where
  "pipeline_client q w = (Inr \<lparr>data = pipeline_rows q, error = JNull\<rparr>, w)"

definition pipeline_helper :: "string \<Rightarrow> jsval list \<Rightarrow> unit \<Rightarrow> (jsval + jsval) \<times> unit" where
  "pipeline_helper name args w =
     (if name = ''getOrCreateSession'' then Inr (JObj [(''id'', JStr ''sess1'')])
      else if name = ''processMetaMessage'' then Inr (JObj [(''text'', JStr ''Hello'')])
      else if name = ''isTransientError'' then Inr (JBool True)
      else if name = ''new Date(timestamp).toISOString''
      then Inr (JStr ''2023-11-14T22:13:20.000Z'')
      else if name = ''new Date().toISOString'' then Inr (JStr ''2023-11-14T22:13:21.000Z'')
      else if name = ''formatVoiceflowResponse'' then Inr (JObj [(''text'', JStr ''Hi there!'')])
      else if name = ''processError'' then Inr (JObj [(''isTransient'', JBool False)])
      else Inr (JObj []), w)"

definition timeout_error :: jsval where
  "timeout_error =
     JObj [(''name'', JStr ''AxiosError''), (''message'', JStr ''timeout of 15000ms exceeded''),
           (''code'', JStr ''ECONNABORTED'')]"

definition network_error :: jsval where
  "network_error =
     JObj [(''name'', JStr ''AxiosError''), (''message'', JStr ''Network Error''),
           (''code'', JStr ''ERR_NETWORK'')]"

definition pipeline_post ::
  "bool \<Rightarrow> string \<Rightarrow> jsval \<Rightarrow> jsval \<Rightarrow> unit \<Rightarrow> (jsval + jsval) \<times> unit" where
  "pipeline_post ai_up url payload config w =
     (if take 27 url = ''https://graph.facebook.com/'' then Inl network_error
      else if ai_up
      then Inr (JObj [(''status'', JNum 200),
                      (''data'', JArr [JObj [(''type'', JStr ''text''),
                                             (''payload'', JObj [(''message'', JStr ''Hi there!'')])]])])
      else Inl timeout_error, w)"

definition pipeline_env :: "bool \<Rightarrow> unit env" where
  "pipeline_env ai_up =
     \<lparr>supabase = Some pipeline_client, helper = pipeline_helper,
      axios_post = pipeline_post ai_up,
      META_APP_SECRET = None, VOICEFLOW_API_KEY = Some ''VF.default'',
      verification_supabase = None\<rparr>"

definition hello_locals :: locals where
  "hello_locals =
     \<lparr>connection = JObj [(''id'', JStr ''conn1''), (''access_token'', JStr ''EAAB''),
                         (''fb_page_id'', JStr ''P1'')],
      session = JObj [(''id'', JStr ''sess1'')],
      conversationId = JStr ''conv1'',
      processedMessage = JObj [(''text'', JStr ''Hello'')],
      savedMessage = JObj [(''id'', JStr ''msg1'')],
      apiKey = JStr ''VF.default'',
      voiceflowRequest = JObj []\<rparr>"

section \<open>The verification handshake\<close>

lemma handshake_path:
  "verification_path ''/api/webhooks/T1/facebook/1700000000'' = (Some ''T1'', ''facebook'')"
  by (simp add: verification_path_def)

text \<open>
  Claim C1, as stated, asks for an active configuration. The only configuration of
  \<open>inactive_client\<close> has the token of the request and is not active; the handler still
  answers 200 with the challenge, where the claim asks for 401.
\<close>

theorem handshake_inactive_counterexample:
  "webhook_configs inactive_client = [inactive_config] \<and> \<not> is_active inactive_config
   \<and> verification_handler (Some inactive_client) handshake_request =
      \<lparr>statusCode = 200,
       resp_headers = verification_cors @ [(''Content-Type'', ''text/plain'')],
       resp_body = Raw (JStr ''1158201444'')\<rparr>"
  by (simp add: verification_handler_def handshake_request_def inactive_client_def
      inactive_config_def param_def handshake_path run_query_def config_matches_def
      challenge_body_def)

text \<open>
  Claim C1, amended. For every GET request: if \<^verbatim>\<open>hub.mode\<close> is not \<^verbatim>\<open>subscribe\<close> or
  \<^verbatim>\<open>hub.verify_token\<close> is absent or empty, the status is 400. Otherwise, when the data-store
  client is initialised and its query succeeds: if some configuration row, active or not,
  has the token, the tenant of the path (when the path names a non-empty one) and the
  channel of the path (when it names one other than \<^verbatim>\<open>all\<close>), the response is 200 with
  content type \<^verbatim>\<open>text/plain\<close> and the challenge as its body; if no row does, the status
  is 401.
\<close>

theorem verification_handshake:
  assumes "httpMethod ev = ''GET''"
  shows "(param ev ''hub.mode'' \<noteq> Some ''subscribe'' \<or> param ev ''hub.verify_token'' = None
           \<or> param ev ''hub.verify_token'' = Some [] \<longrightarrow>
            statusCode (verification_handler sb ev) = 400)
       \<and> (param ev ''hub.mode'' = Some ''subscribe'' \<and> param ev ''hub.verify_token'' = Some token
            \<and> token \<noteq> [] \<and> sb = Some client \<and> failure client = None
            \<and> verification_path (path ev) = (userId, plat) \<longrightarrow>
            (if \<exists>cfg \<in> set (webhook_configs client). config_matches token userId plat cfg
             then verification_handler sb ev =
                    \<lparr>statusCode = 200,
                     resp_headers = verification_cors @ [(''Content-Type'', ''text/plain'')],
                     resp_body = challenge_body (param ev ''hub.challenge'')\<rparr>
             else statusCode (verification_handler sb ev) = 401))"
  using assms
  by (auto simp: verification_handler_def run_query_def invalid_token_def filter_empty_conv
      split: option.splits)

theorem verification_handshake_witness:
  "statusCode (verification_handler (Some active_client) unsubscribe_request) = 400
   \<and> verification_handler (Some active_client) handshake_request =
       \<lparr>statusCode = 200,
        resp_headers = verification_cors @ [(''Content-Type'', ''text/plain'')],
        resp_body = Raw (JStr ''1158201444'')\<rparr>
   \<and> statusCode (verification_handler (Some other_client) handshake_request) = 401"
proof -
  have get1: "httpMethod unsubscribe_request = ''GET''"
    and get2: "httpMethod handshake_request = ''GET''"
    by (simp_all add: unsubscribe_request_def handshake_request_def)
  show ?thesis
    using verification_handshake [OF get1, where sb = "Some active_client"]
      verification_handshake [OF get2, where sb = "Some active_client"
        and client = active_client and token = "''s3cret''" and userId = "Some ''T1''"
        and plat = "''facebook''"]
      verification_handshake [OF get2, where sb = "Some other_client"
        and client = other_client and token = "''s3cret''" and userId = "Some ''T1''"
        and plat = "''facebook''"]
    by (simp add: handshake_request_def unsubscribe_request_def active_client_def
        other_client_def inactive_config_def param_def handshake_path config_matches_def
        challenge_body_def)
qed

text \<open>
  Claim C9. When the module could not create its data-store client, because a credential
  of the environment is missing or empty, every handshake request with
  \<^verbatim>\<open>hub.mode = subscribe\<close> and a non-empty token is answered 401 (never 500), whatever
  client and rows the credentials would have given access to.
\<close>

theorem verification_without_client:
  assumes "supabaseUrl = None \<or> supabaseUrl = Some [] \<or> supabaseServiceKey = None
           \<or> supabaseServiceKey = Some []"
    and "httpMethod ev = ''GET''"
    and "param ev ''hub.mode'' = Some ''subscribe''"
    and "param ev ''hub.verify_token'' = Some token" and "token \<noteq> []"
  shows "verification_handler (init_supabase createClient supabaseUrl supabaseServiceKey) ev
           = invalid_token
         \<and> statusCode invalid_token = 401"
  using assms
  by (auto simp: verification_handler_def init_supabase_def invalid_token_def
      split: option.splits prod.splits)

theorem verification_without_client_witness:
  "verification_handler
     (init_supabase (\<lambda>url key. Some active_client) (Some ''https://db.example'') None)
     handshake_request = invalid_token
   \<and> statusCode invalid_token = 401"
  by (rule verification_without_client [where token = "''s3cret''"])
     (simp_all add: handshake_request_def param_def)

section \<open>Running programs\<close>

lemma and_then_lift_Inr [simp]: "and_then (lift (Inr x)) f = f x"
  by (rule ext) (simp add: and_then_def lift_def)

lemma and_then_lift_Inl [simp]: "and_then (lift (Inl e)) f = throw e"
  by (rule ext) (simp add: and_then_def lift_def throw_def)

lemma and_then_return [simp]: "and_then (return x) f = f x"
  by (rule ext) (simp add: and_then_def return_def)

lemma and_then_throw [simp]: "and_then (throw e) f = throw e"
  by (rule ext) (simp add: and_then_def throw_def)

lemma and_then_assoc [simp]:
  "and_then (and_then m f) g = and_then m (\<lambda>x. and_then (f x) g)"
  by (rule ext) (simp add: and_then_def split: prod.splits sum.splits)

lemma return_apply: "return x s = (Inr x, s)"
  by (simp add: return_def)

lemma throw_apply: "throw e s = (Inl e, s)"
  by (simp add: throw_def)

lemma and_then_call:
  "helper env name args (world s) = (Inr x, w) \<Longrightarrow>
   and_then (call env name args) f s = f x \<lparr>world = w, trace = trace s @ [Helper name args]\<rparr>"
  by (simp add: and_then_def call_def)

lemma and_then_call_throws:
  "helper env name args (world s) = (Inl e, w) \<Longrightarrow>
   and_then (call env name args) f s = (Inl e, \<lparr>world = w, trace = trace s @ [Helper name args]\<rparr>)"
  by (simp add: and_then_def call_def)

lemma and_then_emit:
  "and_then (emit r) f s = f () (s\<lparr>trace := trace s @ [r]\<rparr>)"
  by (simp add: and_then_def emit_def)

lemma state_update_trace [simp]:
  "(s :: 'w state)\<lparr>trace := t\<rparr> = \<lparr>world = world s, trace = t\<rparr>"
  by (cases s) simp

lemma for_each_Nil [simp]: "for_each f [] acc = return acc"
  by (rule ext) (simp add: return_def)

lemma webhook_path_example:
  "webhook_path ''/api/webhooks/T1/facebook/1700000000'' = (Some ''T1'', Some ''facebook'')"
  by (simp add: webhook_path_def)

section \<open>Normalising Facebook events\<close>





text \<open>
  Claim C6, as stated, covers every Facebook event whose message has \<^verbatim>\<open>is_echo = true\<close>.
  The event \<open>echo_postback_event\<close> is one, and it is queued: the results grow by one entry
  and \<^verbatim>\<open>queueMessage\<close> is called.
\<close>

theorem echo_counterexample:
  "get_prop echo_postback_event ''message''
     = Inr (JObj [(''mid'', JStr ''m1''), (''is_echo'', JBool True)])
   \<and> process_event steady_env ''T1'' ''facebook'' echo_postback_event [] start =
     (Inr [JObj [(''success'', JBool True), (''queueId'', JStr ''q1''),
                 (''platform'', JStr ''facebook''), (''type'', JStr ''postback'')]],
      \<lparr>world = (),
       trace =
         [Helper ''Date.now'' [],
          Helper ''queueMessage''
            [JStr ''T1'', JStr ''facebook'', JStr ''P1'', JStr ''S1'',
             JObj [(''mid'', JStr ''postback-1700000000000''),
                   (''postback'', JObj [(''payload'', JStr ''GET_STARTED'')])],
             JNum 1700000000000]]\<rparr>)"
  by (simp add: process_event_def is_instagram_message_def is_facebook_message_def
      is_facebook_postback_def queue_facebook_def postbackMessage_def and_then_call
      echo_postback_event_def steady_env_def steady_helper_def start_def
      own_or_undefined_def queue_args_def dec_int_def dec_nat.simps)
     (simp add: return_apply)

text \<open>
  Claim C6, amended. A Facebook event whose message has \<^verbatim>\<open>is_echo = true\<close> and that
  carries no postback payload is normalised to zero events: no request is made, the
  world is unchanged and the results, hence the queued count, do not grow.
\<close>

theorem echo_is_skipped:
  assumes "get_prop evt ''message'' = Inr message"
    and "get_prop message ''is_echo'' = Inr (JBool True)"
    and "get_prop evt ''postback'' = Inr postback" and "\<not> truthy postback"
  shows "process_event env userId ''facebook'' evt queueResults s = (Inr queueResults, s)"
  using assms
  by (simp add: process_event_def is_instagram_message_def is_facebook_message_def
      is_facebook_postback_def)
     (simp add: return_apply)

theorem echo_is_skipped_witness:
  "process_event steady_env ''T1'' ''facebook'' echo_event [] start = (Inr [], start)"
  by (subst echo_is_skipped [where postback = JUndefined
      and message = "JObj [(''mid'', JStr ''m1''), (''is_echo'', JBool True),
                           (''text'', JStr ''Hi there'')]"])
     (simp_all add: echo_event_def own_or_undefined_def)

section \<open>The signature gate\<close>

text \<open>
  Claim C2. For every POST request: when a signing secret is configured and the check of
  the raw body fails, the handler answers 401 and has made exactly two requests, the
  check itself and an error line on the console: nothing was parsed, queued or stored.
  When no secret is configured (unset or empty), the check is not called: a warning is
  logged and the handler goes on with \<open>route\<close>, the reading of the path and the processing
  of the payload.
\<close>

theorem signature_gate:
  assumes "httpMethod ev = ''POST''"
  shows "(META_APP_SECRET env = Some appSecret \<and> appSecret \<noteq> []
          \<and> helper env ''validateWebhook'' [headers ev, body ev, JStr appSecret] (world s)
              = (Inr validationResult, w)
          \<and> get_prop validationResult ''valid'' = Inr valid \<and> \<not> truthy valid
          \<and> get_prop validationResult ''message'' = Inr details \<longrightarrow>
          handler env ev s =
            (Inr \<lparr>statusCode = 401, resp_headers = handler_cors,
                  resp_body = Stringified (JObj [(''error'', JStr ''Invalid webhook signature''),
                                                 (''details'', details)])\<rparr>,
             \<lparr>world = w,
              trace = trace s @
                [Helper ''validateWebhook'' [headers ev, body ev, JStr appSecret],
                 Console ''error'' ''Invalid webhook signature:'']\<rparr>))
       \<and> (META_APP_SECRET env = None \<or> META_APP_SECRET env = Some [] \<longrightarrow>
          handler env ev s = route env ev (s\<lparr>trace := trace s @ [no_secret_warning]\<rparr>))"
  using assms
  by (auto simp: handler_def authenticate_def validate_def and_then_call and_then_emit
      console_def reply_def return_apply)

theorem signature_gate_witness:
  "handler (steady_env\<lparr>META_APP_SECRET := Some ''shh''\<rparr>) (webhook_post page_body) start =
     (Inr \<lparr>statusCode = 401, resp_headers = handler_cors,
           resp_body = Stringified (JObj [(''error'', JStr ''Invalid webhook signature''),
                                          (''details'', JStr ''Signature mismatch'')])\<rparr>,
      \<lparr>world = (),
       trace =
         [Helper ''validateWebhook''
            [JObj [(''x-hub-signature-256'', JStr ''sha256=00'')], JStr page_body, JStr ''shh''],
          Console ''error'' ''Invalid webhook signature:'']\<rparr>)
   \<and> handler steady_env (webhook_post page_body) start =
       (Inr (reply 200
               (JObj [(''status'', JStr ''success''),
                      (''message'', JStr ''Webhook events received and queued for processing''),
                      (''queued'', JNum 0), (''processed'', JNum 0)])),
        \<lparr>world = (),
         trace =
           [no_secret_warning, Helper ''JSON.parse'' [JStr page_body],
            Console ''log'' ''Received webhook event:'',
            Helper ''processPendingMessages'' [JNum 2]]\<rparr>)"
proof -
  have post: "httpMethod (webhook_post page_body) = ''POST''"
    by (simp add: webhook_post_def)
  show ?thesis
    using signature_gate [OF post, where s = start
        and env = "steady_env\<lparr>META_APP_SECRET := Some ''shh''\<rparr>" and appSecret = "''shh''"
        and validationResult = rejected and w = "()" and valid = "JBool False"
        and details = "JStr ''Signature mismatch''"]
      signature_gate [OF post, where s = start and env = steady_env]
    by (simp add: webhook_post_def steady_env_def steady_helper_def start_def rejected_def
        own_or_undefined_def route_def webhook_path_example handle_payload_def try_catch_def
        try_else_def call_def process_payload_def page_payload_def console_def and_then_emit
        and_then_call return_apply)
qed

section \<open>Failures while handling a payload\<close>

lemma outcome_return: "Q x \<Longrightarrow> outcome (return x) Q E"
  by (simp add: outcome_def return_def)

lemma outcome_throw: "E e \<Longrightarrow> outcome (throw e) Q E"
  by (simp add: outcome_def throw_def)

lemma outcome_and_then:
  "outcome m (\<lambda>_. True) E \<Longrightarrow> (\<And>x. outcome (f x) Q E) \<Longrightarrow> outcome (and_then m f) Q E"
  unfolding outcome_def and_then_def
  by (auto split: prod.splits sum.splits)
     (metis (mono_tags, lifting) old.prod.case old.sum.simps(5,6))+

lemma outcome_if:
  "(c \<Longrightarrow> outcome a Q E) \<Longrightarrow> (\<not> c \<Longrightarrow> outcome b Q E) \<Longrightarrow> outcome (if c then a else b) Q E"
  by simp

lemma type_error_object: "is_object (type_error msg)"
  by (simp add: is_object_def nullish_def type_error_def)

lemma get_prop_throws_object: "get_prop v k = Inl e \<Longrightarrow> is_object e"
  by (cases v) (auto simp: cannot_read_def type_error_object)

lemma get_prop_of_object: "is_object v \<Longrightarrow> \<exists>x. get_prop v k = Inr x"
  by (cases v) (auto simp: is_object_def nullish_def)

lemma outcome_get_prop: "outcome (lift (get_prop v k)) (\<lambda>_. True) is_object"
  by (auto simp: outcome_def lift_def split: sum.splits dest: get_prop_throws_object)

lemma outcome_iterate: "outcome (lift (iterate what v)) (\<lambda>_. True) is_object"
  by (cases v) (auto simp: outcome_def lift_def type_error_object)

lemma outcome_console: "outcome (console level msg) (\<lambda>_. True) E"
  by (simp add: outcome_def console_def emit_def)

lemma outcome_call:
  assumes "\<And>name args w e w'. helper env name args w = (Inl e, w') \<Longrightarrow> is_object e"
  shows "outcome (call env name args) (\<lambda>_. True) is_object"
  using assms by (auto simp: outcome_def call_def split: prod.splits sum.splits)

lemma outcome_for_each:
  assumes "\<And>x acc. outcome (f x acc) (\<lambda>_. True) E"
  shows "outcome (for_each f xs acc) (\<lambda>_. True) E"
  unfolding outcome_def
proof (intro allI)
  fix s
  show "case for_each f xs acc s of (Inr x, s') \<Rightarrow> True | (Inl e, s') \<Rightarrow> E e"
  proof (induction xs arbitrary: acc s)
    case Nil
    show ?case by (simp add: return_apply)
  next
    case (Cons x xs)
    obtain r s1 where step: "f x acc s = (r, s1)" by (cases "f x acc s")
    show ?case
    proof (cases r)
      case (Inl e)
      with step assms [of x acc] show ?thesis
        by (auto simp: outcome_def dest: spec [of _ s])
    next
      case (Inr acc')
      with step Cons.IH [of acc' s1] show ?thesis by simp
    qed
  qed
qed

lemmas outcome_rules =
  outcome_and_then outcome_if outcome_return outcome_throw outcome_get_prop outcome_iterate
  outcome_console outcome_for_each

lemma outcome_process_event:
  assumes "\<And>name args w e w'. helper env name args w = (Inl e, w') \<Longrightarrow> is_object e"
  shows "outcome (process_event env userId platform evt queueResults) (\<lambda>_. True) is_object"
  unfolding process_event_def is_instagram_message_def is_facebook_message_def
    is_facebook_postback_def queue_instagram_def queue_facebook_def postbackMessage_def
  by (intro outcome_rules outcome_call assms TrueI)

lemma outcome_process_entry:
  assumes "\<And>name args w e w'. helper env name args w = (Inl e, w') \<Longrightarrow> is_object e"
  shows "outcome (process_entry env userId platform entry queueResults) (\<lambda>_. True) is_object"
  unfolding process_entry_def
  by (intro outcome_rules outcome_process_event assms TrueI)

lemma outcome_process_payload:
  assumes "\<And>name args w e w'. helper env name args w = (Inl e, w') \<Longrightarrow> is_object e"
  shows "outcome (process_payload env userId platform payload_data)
           (\<lambda>resp. statusCode resp = 200) is_object"
  unfolding process_payload_def
  by (intro outcome_rules outcome_process_entry outcome_call assms TrueI)
     (simp_all add: reply_def)

text \<open>
  The \<^verbatim>\<open>try\<close> block of the handler: 400 when the parser throws; otherwise 200, with the
  error body when the processing of the payload throws.
\<close>

lemma handle_payload_status:
  assumes objs: "\<And>name args w e w'. helper env name args w = (Inl e, w') \<Longrightarrow> is_object e"
  shows "\<exists>resp s'. handle_payload env userId platform raw \<lparr>world = w, trace = t\<rparr>
                     = (Inr resp, s')
           \<and> (case helper env ''JSON.parse'' [raw] w of
                 (Inl e, w') \<Rightarrow> statusCode resp = 400
               | (Inr d, w') \<Rightarrow>
                   statusCode resp = 200
                   \<and> (\<forall>e s2. process_payload env userId platform d
                                \<lparr>world = w', trace = t @ [Helper ''JSON.parse'' [raw]]\<rparr>
                              = (Inl e, s2) \<longrightarrow>
                        (\<exists>msg. get_prop e ''message'' = Inr msg
                           \<and> resp = reply 200 (JObj [(''status'', JStr ''error''),
                                                     (''message'', JStr ''Error processing webhook''),
                                                     (''error'', msg)]))))"
proof -
  obtain r w' where parse: "helper env ''JSON.parse'' [raw] w = (r, w')"
    by (cases "helper env ''JSON.parse'' [raw] w")
  show ?thesis
  proof (cases r)
    case (Inl e)
    with parse show ?thesis
      by (simp add: handle_payload_def try_catch_def try_else_def call_def return_apply
          reply_def)
  next
    case (Inr d)
    let ?s1 = "\<lparr>world = w', trace = t @ [Helper ''JSON.parse'' [raw]]\<rparr>"
    obtain r2 s2 where run: "process_payload env userId platform d ?s1 = (r2, s2)"
      by (cases "process_payload env userId platform d ?s1")
    have out: "case process_payload env userId platform d ?s1 of
                 (Inr resp, s') \<Rightarrow> statusCode resp = 200 | (Inl e, s') \<Rightarrow> is_object e"
      using outcome_process_payload [where env = env and userId = userId
          and platform = platform and payload_data = d] objs
      by (simp add: outcome_def)
    show ?thesis
    proof (cases r2)
      case (Inl e)
      with run out have "is_object e" by simp
      then obtain msg where msg: "get_prop e ''message'' = Inr msg"
        using get_prop_of_object by blast
      with parse Inr run Inl show ?thesis
        by (simp add: handle_payload_def try_catch_def try_else_def call_def swallow_def
            console_def and_then_emit return_apply reply_def)
    next
      case (Inr resp)
      with run out have "statusCode resp = 200" by simp
      with parse \<open>r = Inr d\<close> run Inr show ?thesis
        by (simp add: handle_payload_def try_catch_def try_else_def call_def)
    qed
  qed
qed

text \<open>
  Claim C5, as stated, promises a 200 for any exception thrown while parsing. A body that
  is not JSON makes \<^verbatim>\<open>JSON.parse\<close> throw, and the inner \<^verbatim>\<open>catch\<close> of line 398 answers 400.
\<close>

theorem parse_failure_counterexample:
  "handler steady_env (webhook_post truncated_body) start =
     (Inr \<lparr>statusCode = 400, resp_headers = handler_cors,
           resp_body = Stringified
             (JObj [(''error'', JStr ''Invalid request body. JSON parsing failed.'')])\<rparr>,
      \<lparr>world = (),
       trace = [no_secret_warning, Helper ''JSON.parse'' [JStr truncated_body]]\<rparr>)"
  by (simp add: handler_def authenticate_def webhook_post_def steady_env_def and_then_emit
      route_def webhook_path_example handle_payload_def try_catch_def try_else_def call_def
      steady_helper_def truncated_body_def page_body_def no_entry_body_def start_def
      return_apply reply_def)

text \<open>
  Claim C5, amended. Take a POST request that passes the signature check (no secret, or
  a check that returns a truthy \<^verbatim>\<open>valid\<close>), whose path has a non-empty tenant and the
  channel \<^verbatim>\<open>facebook\<close> or \<^verbatim>\<open>instagram\<close>, and collaborators whose exceptions are error
  objects (never \<^verbatim>\<open>null\<close> or \<^verbatim>\<open>undefined\<close>). Then the handler returns a response and never
  rejects; the status is 400 when \<^verbatim>\<open>JSON.parse\<close> throws and 200 otherwise; and when the
  processing of the parsed payload throws, the response is the 200 with the error body
  that carries the message of the exception. No status of the 5xx class is returned.
\<close>

theorem payload_failures_are_swallowed:
  assumes "httpMethod ev = ''POST''"
    and "(META_APP_SECRET env = None \<or> META_APP_SECRET env = Some [])
           \<and> w = world s \<and> pre = [no_secret_warning]
         \<or> META_APP_SECRET env = Some appSecret \<and> appSecret \<noteq> []
           \<and> helper env ''validateWebhook'' [headers ev, body ev, JStr appSecret] (world s)
               = (Inr validationResult, w)
           \<and> get_prop validationResult ''valid'' = Inr valid \<and> truthy valid
           \<and> pre = [Helper ''validateWebhook'' [headers ev, body ev, JStr appSecret],
                    Console ''log'' ''Webhook signature verified using:'']"
    and "webhook_path (path ev) = (Some userId, Some platform)"
    and "userId \<noteq> []" and "platform = ''facebook'' \<or> platform = ''instagram''"
    and "\<forall>name args w e w'. helper env name args w = (Inl e, w') \<longrightarrow> is_object e"
  shows "\<exists>resp s'. handler env ev s = (Inr resp, s')
           \<and> (case helper env ''JSON.parse'' [body ev] w of
                 (Inl e, w') \<Rightarrow> statusCode resp = 400
               | (Inr d, w') \<Rightarrow>
                   statusCode resp = 200
                   \<and> (\<forall>e s2. process_payload env userId platform d
                                \<lparr>world = w',
                                 trace = (trace s @ pre) @ [Helper ''JSON.parse'' [body ev]]\<rparr>
                              = (Inl e, s2) \<longrightarrow>
                        (\<exists>msg. get_prop e ''message'' = Inr msg
                           \<and> resp = reply 200 (JObj [(''status'', JStr ''error''),
                                                     (''message'', JStr ''Error processing webhook''),
                                                     (''error'', msg)]))))"
proof -
  have objs: "\<And>name args w e w'. helper env name args w = (Inl e, w') \<Longrightarrow> is_object e"
    using assms(6) by blast
  let ?s0 = "\<lparr>world = w, trace = trace s @ pre\<rparr>"
  have eq: "handler env ev s = handle_payload env userId platform (body ev) ?s0"
    using assms(1-5)
    by (auto simp: handler_def authenticate_def validate_def and_then_call and_then_emit
        console_def route_def)
  show ?thesis
    unfolding eq by (rule handle_payload_status) (erule objs)
qed

theorem payload_failures_are_swallowed_witness:
  "\<exists>resp s'. handler steady_env (webhook_post no_entry_body) start = (Inr resp, s')
     \<and> statusCode resp = 200
     \<and> resp = reply 200 (JObj [(''status'', JStr ''error''),
                               (''message'', JStr ''Error processing webhook''),
                               (''error'', JStr ''data.entry is not iterable'')])"
proof -
  let ?ev = "webhook_post no_entry_body"
  let ?s1 = "\<lparr>world = (),
              trace = (trace start @ [no_secret_warning]) @ [Helper ''JSON.parse'' [body ?ev]]\<rparr>"
  have post: "httpMethod ?ev = ''POST''"
    by (simp add: webhook_post_def)
  have sig: "(META_APP_SECRET steady_env = None \<or> META_APP_SECRET steady_env = Some [])
               \<and> () = world start \<and> [no_secret_warning] = [no_secret_warning]
             \<or> META_APP_SECRET steady_env = Some [] \<and> [] \<noteq> []
               \<and> helper steady_env ''validateWebhook'' [headers ?ev, body ?ev, JStr []]
                     (world start) = (Inr JNull, ())
               \<and> get_prop JNull ''valid'' = Inr JNull \<and> truthy JNull
               \<and> [no_secret_warning]
                   = [Helper ''validateWebhook'' [headers ?ev, body ?ev, JStr []],
                      Console ''log'' ''Webhook signature verified using:'']"
    by (simp add: steady_env_def)
  have pth: "webhook_path (path ?ev) = (Some ''T1'', Some ''facebook'')"
    by (simp add: webhook_post_def webhook_path_example)
  have ne: "''T1'' \<noteq> []" and fb: "''facebook'' = ''facebook'' \<or> ''facebook'' = ''instagram''"
    by simp_all
  have objs: "\<forall>name args w e w'. helper steady_env name args w = (Inl e, w') \<longrightarrow> is_object e"
    by (auto simp: steady_env_def steady_helper_def syntax_error_def is_object_def nullish_def
        split: if_splits)
  have parse: "helper steady_env ''JSON.parse'' [body ?ev] () = (Inr no_entry_payload, ())"
    by (simp add: steady_env_def steady_helper_def webhook_post_def no_entry_body_def
        page_body_def)
  have run: "\<exists>s2. process_payload steady_env ''T1'' ''facebook'' no_entry_payload ?s1
               = (Inl (type_error ''data.entry is not iterable''), s2)"
    by (simp add: process_payload_def no_entry_payload_def own_or_undefined_def console_def
        and_then_emit throw_apply)
  from payload_failures_are_swallowed [OF post sig pth ne fb objs]
  obtain resp s' where
    res: "handler steady_env ?ev start = (Inr resp, s')"
    and st: "case helper steady_env ''JSON.parse'' [body ?ev] () of
               (Inl e, w') \<Rightarrow> statusCode resp = 400
             | (Inr d, w') \<Rightarrow>
                 statusCode resp = 200
                 \<and> (\<forall>e s2. process_payload steady_env ''T1'' ''facebook'' d
                              \<lparr>world = w',
                               trace = (trace start @ [no_secret_warning])
                                 @ [Helper ''JSON.parse'' [body ?ev]]\<rparr>
                            = (Inl e, s2) \<longrightarrow>
                      (\<exists>msg. get_prop e ''message'' = Inr msg
                         \<and> resp = reply 200 (JObj [(''status'', JStr ''error''),
                                                   (''message'', JStr ''Error processing webhook''),
                                                   (''error'', msg)])))"
    by (elim exE conjE) (rule that)
  from st have ok: "statusCode resp = 200"
    and all: "\<And>e s2. process_payload steady_env ''T1'' ''facebook'' no_entry_payload ?s1
                       = (Inl e, s2) \<Longrightarrow>
               \<exists>msg. get_prop e ''message'' = Inr msg
                 \<and> resp = reply 200 (JObj [(''status'', JStr ''error''),
                                           (''message'', JStr ''Error processing webhook''),
                                           (''error'', msg)])"
    unfolding parse by simp_all
  from run all obtain msg where
    "get_prop (type_error ''data.entry is not iterable'') ''message'' = Inr msg"
    and "resp = reply 200 (JObj [(''status'', JStr ''error''),
                                 (''message'', JStr ''Error processing webhook''),
                                 (''error'', msg)])"
    by blast
  with res ok show ?thesis
    by (auto simp: type_error_def own_or_undefined_def)
qed

section \<open>Context updates of a reply\<close>

























text \<open>
  Why the text before a marker matters: after an opener that is not closed, the marker is
  read as part of the opener's value, and its key is not bound.
\<close>

lemma swallowed_marker:
  "unclosed_opener ''[[SET:a=''
   \<and> extractContextFromVoiceflowResponse swallowed_reply = Inr [(''a'', JStr ''[[SET:k=v'')]"
  by (simp add: extractContextFromVoiceflowResponse_def swallowed_reply_def text_item_def
      extract_item_def own_or_undefined_def match_here_def key_char_def assign_def
      opens_here_def)




section \<open>A failure of the AI backend\<close>

lemma emitsD: "emits P m \<Longrightarrow> m s = (r, s') \<Longrightarrow> \<exists>t. trace s' = trace s @ t \<and> list_all P t"
  by (auto simp: emits_def dest: spec [of _ s])

lemma emits_return: "emits P (return x)"
  by (simp add: emits_def return_def)

lemma emits_throw: "emits P (throw e)"
  by (simp add: emits_def throw_def)

lemma emits_lift: "emits P (lift r)"
  by (simp add: emits_def lift_def)

lemma emits_emit: "P r \<Longrightarrow> emits P (emit r)"
  by (simp add: emits_def emit_def)

lemma emits_console: "P (Console level msg) \<Longrightarrow> emits P (console level msg)"
  by (simp add: console_def emits_emit)

lemma emits_call: "P (Helper name args) \<Longrightarrow> emits P (call env name args)"
  by (simp add: emits_def call_def split: prod.splits)

lemma emits_query: "P (Query q) \<Longrightarrow> emits P (query client q)"
  by (simp add: emits_def query_def split: prod.splits)

lemma emits_post: "P (Post url payload config) \<Longrightarrow> emits P (post env url payload config)"
  by (simp add: emits_def post_def split: prod.splits)

lemma emits_try_else:
  assumes "emits P m" and "\<And>x. emits P (f x)" and "\<And>e. emits P (h e)"
  shows "emits P (try_else m f h)"
  unfolding emits_def
proof
  fix s
  obtain r s1 where m: "m s = (r, s1)" by (cases "m s")
  from emitsD [OF assms(1) m] obtain t1 where t1: "trace s1 = trace s @ t1" "list_all P t1"
    by blast
  obtain r2 s2 where k: "(case r of Inl e \<Rightarrow> h e s1 | Inr x \<Rightarrow> f x s1) = (r2, s2)"
    by (cases "case r of Inl e \<Rightarrow> h e s1 | Inr x \<Rightarrow> f x s1")
  have "\<exists>t2. trace s2 = trace s1 @ t2 \<and> list_all P t2"
  proof (cases r)
    case (Inl e)
    with k have "h e s1 = (r2, s2)" by simp
    then show ?thesis by (rule emitsD [OF assms(3)])
  next
    case (Inr x)
    with k have "f x s1 = (r2, s2)" by simp
    then show ?thesis by (rule emitsD [OF assms(2)])
  qed
  then obtain t2 where t2: "trace s2 = trace s1 @ t2" "list_all P t2" by blast
  have "try_else m f h s = (r2, s2)"
    using m k by (simp add: try_else_def split: sum.splits)
  with t1 t2 show "\<exists>t. trace (snd (try_else m f h s)) = trace s @ t \<and> list_all P t"
    by simp
qed

lemma and_then_try_else: "and_then m f = try_else m f throw"
  by (rule ext) (simp add: and_then_def try_else_def throw_def split: prod.splits sum.splits)

lemma try_catch_try_else: "try_catch m h = try_else m return h"
  by (rule ext) (simp add: try_catch_def try_else_def return_def split: prod.splits sum.splits)

lemma emits_and_then: "emits P m \<Longrightarrow> (\<And>x. emits P (f x)) \<Longrightarrow> emits P (and_then m f)"
  by (simp add: and_then_try_else emits_try_else emits_throw)

lemma emits_try_catch: "emits P m \<Longrightarrow> (\<And>e. emits P (h e)) \<Longrightarrow> emits P (try_catch m h)"
  by (simp add: try_catch_try_else emits_try_else emits_return)

lemma emits_if:
  "(c \<Longrightarrow> emits P a) \<Longrightarrow> (\<not> c \<Longrightarrow> emits P b) \<Longrightarrow> emits P (if c then a else b)"
  by simp

lemma emits_retry_attempts:
  assumes op: "emits P operation"
    and sr: "\<And>e. emits P (case shouldRetry opts of None \<Rightarrow> is_transient env e | Some p \<Rightarrow> p e)"
    and sl: "\<And>n. P (Sleep n)"
  shows "emits P (retry_attempts env opts operation attempt remaining)"
  unfolding emits_def
proof
  fix s
  show "\<exists>t. trace (snd (retry_attempts env opts operation attempt remaining s)) = trace s @ t
             \<and> list_all P t"
  proof (induction remaining arbitrary: attempt s)
    case 0
    obtain r s1 where "operation s = (r, s1)" by (cases "operation s")
    with emitsD [OF op this] show ?case by simp
  next
    case (Suc remaining)
    let ?sr = "\<lambda>e. case shouldRetry opts of None \<Rightarrow> is_transient env e | Some p \<Rightarrow> p e"
    obtain r s1 where o: "operation s = (r, s1)" by (cases "operation s")
    from emitsD [OF op o] obtain t1 where t1: "trace s1 = trace s @ t1" "list_all P t1"
      by blast
    show ?case
    proof (cases r)
      case (Inr x)
      with o t1 show ?thesis by simp
    next
      case (Inl e)
      obtain r2 s2 where d: "?sr e s1 = (r2, s2)" by (cases "?sr e s1")
      from emitsD [OF sr d] obtain t2 where t2: "trace s2 = trace s1 @ t2" "list_all P t2"
        by blast
      show ?thesis
      proof (cases r2)
        case (Inl e')
        with o \<open>r = Inl e\<close> d t1 t2 show ?thesis by simp
      next
        case (Inr again)
        show ?thesis
        proof (cases again)
          case False
          with o \<open>r = Inl e\<close> d Inr t1 t2 show ?thesis by simp
        next
          case True
          let ?s3 = "s2\<lparr>trace := trace s2 @ [Sleep (backoff_delay opts attempt)]\<rparr>"
          from Suc.IH [of "Suc attempt" ?s3] obtain t3 where
            t3: "trace (snd (retry_attempts env opts operation (Suc attempt) remaining ?s3))
                   = trace ?s3 @ t3" "list_all P t3"
            by blast
          have "retry_attempts env opts operation attempt (Suc remaining) s
                  = retry_attempts env opts operation (Suc attempt) remaining ?s3"
            using o \<open>r = Inl e\<close> d Inr True by simp
          with t1 t2 t3 sl show ?thesis by simp
        qed
      qed
    qed
  qed
qed

lemma emits_is_transient: "P (Helper ''isTransientError'' [e]) \<Longrightarrow> emits P (is_transient env e)"
  by (simp add: is_transient_def emits_and_then emits_call emits_return)

lemma emits_transient_retry:
  assumes "emits P operation" and "\<And>e. P (Helper ''isTransientError'' [e])" and "\<And>n. P (Sleep n)"
  shows "emits P (retryWithBackoff env operation (transient_retry env n d))"
  unfolding retryWithBackoff_def
  by (rule emits_retry_attempts) (simp_all add: assms transient_retry_def emits_is_transient)

lemma emits_default_retry:
  assumes "emits P operation" and "\<And>e. P (Helper ''isTransientError'' [e])" and "\<And>n. P (Sleep n)"
  shows "emits P (retryWithBackoff env operation (default_retry n d))"
  unfolding retryWithBackoff_def
  by (rule emits_retry_attempts) (simp_all add: assms default_retry_def emits_is_transient)

lemma emits_voiceflow_should_retry:
  "P (Helper ''isTransientError'' [e]) \<Longrightarrow> emits P (voiceflow_should_retry env e)"
  unfolding voiceflow_should_retry_def
  by (intro emits_and_then emits_call emits_if emits_return emits_lift)

lemma emits_voiceflow_retry:
  assumes "emits P operation" and "\<And>e. P (Helper ''isTransientError'' [e])" and "\<And>n. P (Sleep n)"
  shows "emits P (retryWithBackoff env operation (voiceflow_retry env))"
  unfolding retryWithBackoff_def
  by (rule emits_retry_attempts)
     (simp_all add: assms voiceflow_retry_def emits_voiceflow_should_retry)

lemmas emits_rules =
  emits_and_then emits_try_catch emits_try_else emits_if emits_return emits_throw emits_lift
  emits_call emits_query emits_post emits_console emits_emit
  emits_transient_retry emits_default_retry emits_voiceflow_retry

lemma quiet_simps [simp]:
  "quiet (Sleep n)" "quiet (Console level msg)"
  "quiet (Helper name args) = (name \<noteq> ''saveToDeadLetterQueue'')"
  "quiet (Query (Select table cols filters limit))"
  "quiet (Query (Update table vals filters))"
  "quiet (Query (Insert table row))
     = (\<not> (table = ''messages'' \<and> get_prop row ''sender_type'' = Inr (JStr ''assistant'')))"
  "quiet (Post url payload config) = (take 27 url \<noteq> ''https://graph.facebook.com/'')"
  by (simp_all add: quiet_def is_dead_letter_def is_assistant_insert_def is_outbound_send_def)

lemma quiet_prepare:
  "emits quiet (prepare env client userId platform senderId recipientId message timestamp)"
  unfolding prepare_def getSocialConnection_def getOrCreateConversation_def saveUserMessage_def
    getVoiceflowMapping_def getApiKey_def to_iso_def
  by (intro emits_rules; simp add: own_or_undefined_def)

lemma quiet_callVoiceflow:
  "emits quiet (retryWithBackoff env (callVoiceflow env userId c) (voiceflow_retry env))"
  unfolding callVoiceflow_def
  by (intro emits_rules; simp add: voiceflow_url_def)

lemma quiet_report_failure: "emits quiet (report_failure env userId platform err)"
  unfolding report_failure_def
  by (intro emits_rules; simp)


lemma reads_and_then_lift:
  "(\<And>x. r = Inr x \<Longrightarrow> outcome (f x) Q (\<lambda>_. True)) \<Longrightarrow>
   outcome (and_then (lift r) f) Q (\<lambda>_. True)"
  by (cases r) (simp_all add: outcome_def throw_def)

lemma reads_and_then:
  "(\<And>x. outcome (f x) Q (\<lambda>_. True)) \<Longrightarrow> outcome (and_then m f) Q (\<lambda>_. True)"
  unfolding outcome_def
proof
  fix s
  assume f: "\<And>x. \<forall>s. case f x s of (Inr y, s') \<Rightarrow> Q y | (Inl e, s') \<Rightarrow> True"
  obtain r s1 where m: "m s = (r, s1)" by (cases "m s")
  show "case and_then m f s of (Inr y, s') \<Rightarrow> Q y | (Inl e, s') \<Rightarrow> True"
  proof (cases r)
    case (Inl e)
    with m show ?thesis by (simp add: and_then_def)
  next
    case (Inr x)
    with m f [of x] show ?thesis by (simp add: and_then_def)
  qed
qed

lemma reads_return: "Q x \<Longrightarrow> outcome (return x) Q (\<lambda>_. True)"
  by (simp add: outcome_def return_def)

lemma reads_throw: "outcome (throw e) Q (\<lambda>_. True)"
  by (simp add: outcome_def throw_def)

lemma outcomeD: "outcome m Q E \<Longrightarrow> m s = (Inr x, s') \<Longrightarrow> Q x"
  by (auto simp: outcome_def dest: spec [of _ s])

lemma prepare_reads:
  "outcome (prepare env client userId platform senderId recipientId message timestamp)
     (\<lambda>c. (\<exists>x. get_prop (session c) ''id'' = Inr x)
          \<and> (\<exists>x. get_prop (processedMessage c) ''text'' = Inr x)
          \<and> (\<exists>x. get_prop (savedMessage c) ''id'' = Inr x))
     (\<lambda>_. True)"
  unfolding prepare_def
  by (intro reads_and_then_lift reads_and_then outcome_if reads_throw reads_return) simp

lemma report_failure_result:
  "outcome (report_failure env userId platform err)
     (\<lambda>v. get_prop v ''success'' = Inr (JBool False)) (\<lambda>_. True)"
  unfolding report_failure_def
  by (intro reads_and_then_lift reads_and_then outcome_if reads_throw reads_return)
     (simp_all add: own_or_undefined_def)

lemma quiet_filters:
  "list_all quiet t \<Longrightarrow>
   filter is_dead_letter t = [] \<and> filter is_assistant_insert t = []
   \<and> filter is_outbound_send t = []"
  by (induction t) (auto simp: quiet_def)

lemma dead_letter_kind:
  "is_dead_letter (dead_letter u t e p c m ts sid)"
  "\<not> is_assistant_insert (dead_letter u t e p c m ts sid)"
  "\<not> is_outbound_send (dead_letter u t e p c m ts sid)"
  by (simp_all add: dead_letter_def is_dead_letter_def is_assistant_insert_def
      is_outbound_send_def)

lemma retry_attempts_2:
  "retry_attempts env opts operation attempt 2
     = retry_attempts env opts operation attempt (Suc (Suc 0))"
  by (simp add: numeral_2_eq_2)

lemma retry_attempts_1:
  "retry_attempts env opts operation attempt 1
     = retry_attempts env opts operation attempt (Suc 0)"
  by simp

lemmas run_simps =
  and_then_def try_catch_def try_else_def call_def query_def post_def lift_def return_def
  throw_def emit_def console_def is_transient_def retryWithBackoff_def transient_retry_def
  default_retry_def voiceflow_retry_def backoff_delay_def retry_attempts_2 retry_attempts_1
  first_row_def no_rows_def to_iso_def now_iso_def env_value_def own_or_undefined_def
  pipeline_env_def pipeline_client_def pipeline_rows_def pipeline_helper_def pipeline_post_def

lemma hello_prepare:
  "\<exists>s1. prepare (pipeline_env ai_up) pipeline_client (JStr ''T1'') (JStr ''facebook'')
          (JStr ''S1'') (JStr ''P1'') hello_message (JNum 1700000000000) start
        = (Inr hello_locals, s1)"
  by (simp add: prepare_def getSocialConnection_def getOrCreateConversation_def
      saveUserMessage_def getVoiceflowMapping_def getApiKey_def hello_message_def
      hello_locals_def start_def run_simps)

lemma hello_timeout:
  "\<exists>s2. retryWithBackoff (pipeline_env False)
          (callVoiceflow (pipeline_env False) (JStr ''T1'') hello_locals)
          (voiceflow_retry (pipeline_env False)) s1
        = (Inl timeout_error, s2)"
  by (simp add: callVoiceflow_def voiceflow_url_def voiceflow_should_retry_def run_simps)

text \<open>
  Claim C3. When everything before the call of the AI backend succeeded and the call,
  wrapped in its retries, ends with an error object, the invocation writes exactly one
  dead-letter record, made of the tenant, the text of the processed message, the message
  of the error and the snapshot (platform, conversation id, message id, timestamp,
  session id), and then stops: among all the requests it made there is no insertion of an
  assistant message and no post to the channel's send API, and a result, if one is
  returned, has \<^verbatim>\<open>success: false\<close>.
\<close>

theorem ai_failure_is_dead_lettered:
  assumes sup: "supabase env = Some client"
    and prep: "prepare env client userId platform senderId recipientId message timestamp s
                 = (Inr c, s1)"
    and vf: "retryWithBackoff env (callVoiceflow env userId c) (voiceflow_retry env) s1
               = (Inl voiceflowError, s2)"
    and obj: "is_object voiceflowError"
  shows "\<exists>content errorMessage messageId sessionId result s' added.
           get_prop (processedMessage c) ''text'' = Inr content
           \<and> get_prop voiceflowError ''message'' = Inr errorMessage
           \<and> get_prop (savedMessage c) ''id'' = Inr messageId
           \<and> get_prop (session c) ''id'' = Inr sessionId
           \<and> processMessage env userId platform senderId recipientId message timestamp s
               = (result, s')
           \<and> trace s' = trace s @ added
           \<and> filter is_dead_letter added
               = [dead_letter userId content errorMessage platform (conversationId c) messageId
                    timestamp sessionId]
           \<and> filter is_assistant_insert added = []
           \<and> filter is_outbound_send added = []
           \<and> (case result of Inl e \<Rightarrow> True
                | Inr v \<Rightarrow> get_prop v ''success'' = Inr (JBool False))"
proof -
  from outcomeD [OF prepare_reads prep] obtain sessionId content messageId where
    sid: "get_prop (session c) ''id'' = Inr sessionId"
    and tx: "get_prop (processedMessage c) ''text'' = Inr content"
    and mid: "get_prop (savedMessage c) ''id'' = Inr messageId"
    by blast
  from get_prop_of_object [OF obj] obtain errorMessage where
    em: "get_prop voiceflowError ''message'' = Inr errorMessage"
    by blast
  let ?args = "[userId, content, errorMessage,
                JObj [(''platform'', platform), (''conversationId'', conversationId c),
                      (''messageId'', messageId), (''timestamp'', timestamp),
                      (''sessionId'', sessionId)]]"
  let ?dl = "dead_letter userId content errorMessage platform (conversationId c) messageId
               timestamp sessionId"
  obtain r3 w3 where saved: "helper env ''saveToDeadLetterQueue'' ?args (world s2) = (r3, w3)"
    by (cases "helper env ''saveToDeadLetterQueue'' ?args (world s2)")
  let ?s3 = "\<lparr>world = w3, trace = trace s2 @ [?dl]\<rparr>"
  define err where "err = (case r3 of Inl e \<Rightarrow> e | Inr x \<Rightarrow> ai_failure)"
  have failed: "record_failure env userId platform timestamp c voiceflowError s2 = (Inl err, ?s3)"
    using saved
    by (cases r3)
       (simp_all add: record_failure_def sid tx mid em and_then_def call_def throw_apply
          dead_letter_def err_def)
  have ask: "ask_voiceflow env userId platform timestamp c s1 = (Inl err, ?s3)"
    using vf failed by (simp add: ask_voiceflow_def try_catch_def and_then_def)
  have pm: "processMessage env userId platform senderId recipientId message timestamp s
              = report_failure env userId platform err ?s3"
    using sup prep ask by (simp add: processMessage_def try_catch_def and_then_def)
  obtain result s' where fin: "report_failure env userId platform err ?s3 = (result, s')"
    by (cases "report_failure env userId platform err ?s3")
  from emitsD [OF quiet_prepare prep] obtain t1 where
    t1: "trace s1 = trace s @ t1" "list_all quiet t1" by blast
  from emitsD [OF quiet_callVoiceflow vf] obtain t2 where
    t2: "trace s2 = trace s1 @ t2" "list_all quiet t2" by blast
  from emitsD [OF quiet_report_failure fin] obtain t4 where
    t4: "trace s' = trace ?s3 @ t4" "list_all quiet t4" by blast
  let ?added = "t1 @ t2 @ [?dl] @ t4"
  have tr: "trace s' = trace s @ ?added"
    using t1 t2 t4 by simp
  have f1: "filter is_dead_letter ?added = [?dl]"
    and f2: "filter is_assistant_insert ?added = []"
    and f3: "filter is_outbound_send ?added = []"
    using quiet_filters [OF t1(2)] quiet_filters [OF t2(2)] quiet_filters [OF t4(2)]
    by (simp_all add: dead_letter_kind)
  have res: "case result of Inl e \<Rightarrow> True | Inr v \<Rightarrow> get_prop v ''success'' = Inr (JBool False)"
    using outcomeD [OF report_failure_result, of env userId platform err ?s3] fin
    by (cases result) simp_all
  from tx em mid sid pm fin tr f1 f2 f3 res show ?thesis
    by (intro exI [of _ content] exI [of _ errorMessage] exI [of _ messageId]
        exI [of _ sessionId] exI [of _ result] exI [of _ s'] exI [of _ ?added]) simp
qed

theorem ai_failure_is_dead_lettered_witness:
  "\<exists>result s' added.
     processMessage (pipeline_env False) (JStr ''T1'') (JStr ''facebook'') (JStr ''S1'')
       (JStr ''P1'') hello_message (JNum 1700000000000) start = (result, s')
     \<and> trace s' = trace start @ added
     \<and> filter is_dead_letter added
         = [dead_letter (JStr ''T1'') (JStr ''Hello'') (JStr ''timeout of 15000ms exceeded'')
              (JStr ''facebook'') (JStr ''conv1'') (JStr ''msg1'') (JNum 1700000000000)
              (JStr ''sess1'')]
     \<and> filter is_assistant_insert added = []
     \<and> filter is_outbound_send added = []
     \<and> (case result of Inl e \<Rightarrow> True | Inr v \<Rightarrow> get_prop v ''success'' = Inr (JBool False))"
proof -
  let ?env = "pipeline_env False"
  obtain s1 where prep:
    "prepare ?env pipeline_client (JStr ''T1'') (JStr ''facebook'') (JStr ''S1'') (JStr ''P1'')
       hello_message (JNum 1700000000000) start = (Inr hello_locals, s1)"
    using hello_prepare by blast
  obtain s2 where vf:
    "retryWithBackoff ?env (callVoiceflow ?env (JStr ''T1'') hello_locals) (voiceflow_retry ?env) s1
       = (Inl timeout_error, s2)"
    using hello_timeout by blast
  have sup: "supabase ?env = Some pipeline_client"
    by (simp add: pipeline_env_def)
  have obj: "is_object timeout_error"
    by (simp add: is_object_def nullish_def timeout_error_def)
  from ai_failure_is_dead_lettered [OF sup prep vf obj]
  obtain content errorMessage messageId sessionId result s' added where
    reads: "get_prop (processedMessage hello_locals) ''text'' = Inr content"
      "get_prop timeout_error ''message'' = Inr errorMessage"
      "get_prop (savedMessage hello_locals) ''id'' = Inr messageId"
      "get_prop (session hello_locals) ''id'' = Inr sessionId"
    and run: "processMessage ?env (JStr ''T1'') (JStr ''facebook'') (JStr ''S1'') (JStr ''P1'')
                hello_message (JNum 1700000000000) start = (result, s')"
    and tr: "trace s' = trace start @ added"
    and dl: "filter is_dead_letter added
               = [dead_letter (JStr ''T1'') content errorMessage (JStr ''facebook'')
                    (conversationId hello_locals) messageId (JNum 1700000000000) sessionId]"
    and none: "filter is_assistant_insert added = []" "filter is_outbound_send added = []"
    and res: "case result of Inl e \<Rightarrow> True
              | Inr v \<Rightarrow> get_prop v ''success'' = Inr (JBool False)"
    by (elim exE conjE) (rule that)
  from reads have "content = JStr ''Hello''" "errorMessage = JStr ''timeout of 15000ms exceeded''"
    "messageId = JStr ''msg1''" "sessionId = JStr ''sess1''"
    by (simp_all add: hello_locals_def timeout_error_def own_or_undefined_def)
  with run tr dl none res show ?thesis
    by (intro exI [of _ result] exI [of _ s'] exI [of _ added]) (simp add: hello_locals_def)
qed


section \<open>A reply that could not be delivered\<close>

lemma performsD:
  "performs R m \<Longrightarrow> m s = (Inr x, s') \<Longrightarrow> \<exists>t. trace s' = trace s @ t \<and> list_ex R t"
  by (auto simp: performs_def)

lemma and_then_InrE:
  assumes "and_then m f s = (Inr y, s')"
  obtains x s1 where "m s = (Inr x, s1)" and "f x s1 = (Inr y, s')"
proof -
  obtain r s1 where m: "m s = (r, s1)" by (cases "m s")
  with assms show ?thesis
    by (cases r) (auto simp: and_then_def intro: that)
qed

lemma performs_query: "R (Query q) \<Longrightarrow> performs R (query client q)"
  by (auto simp: performs_def query_def split: prod.splits)

lemma performs_and_then_first:
  assumes "performs R m" and "\<And>x. emits (\<lambda>_. True) (f x)"
  shows "performs R (and_then m f)"
  unfolding performs_def
proof (intro allI impI)
  fix s y s'
  assume "and_then m f s = (Inr y, s')"
  then obtain x s1 where m: "m s = (Inr x, s1)" and f: "f x s1 = (Inr y, s')"
    by (rule and_then_InrE)
  from performsD [OF assms(1) m] obtain t1 where t1: "trace s1 = trace s @ t1" "list_ex R t1"
    by blast
  from emitsD [OF assms(2) f] obtain t2 where t2: "trace s' = trace s1 @ t2"
    by blast
  from t1 t2 show "\<exists>t. trace s' = trace s @ t \<and> list_ex R t"
    by (intro exI [of _ "t1 @ t2"]) simp
qed

lemma performs_and_then_later:
  assumes "emits (\<lambda>_. True) m" and "\<And>x. performs R (f x)"
  shows "performs R (and_then m f)"
  unfolding performs_def
proof (intro allI impI)
  fix s y s'
  assume "and_then m f s = (Inr y, s')"
  then obtain x s1 where m: "m s = (Inr x, s1)" and f: "f x s1 = (Inr y, s')"
    by (rule and_then_InrE)
  from emitsD [OF assms(1) m] obtain t1 where t1: "trace s1 = trace s @ t1"
    by blast
  from performsD [OF assms(2) f] obtain t2 where t2: "trace s' = trace s1 @ t2" "list_ex R t2"
    by blast
  from t1 t2 show "\<exists>t. trace s' = trace s @ t \<and> list_ex R t"
    by (intro exI [of _ "t1 @ t2"]) simp
qed

lemma performs_and_then_lift:
  assumes "\<And>x. r = Inr x \<Longrightarrow> performs R (f x)"
  shows "performs R (and_then (lift r) f)"
proof (cases r)
  case (Inl e)
  then show ?thesis by (simp add: performs_def throw_def)
next
  case (Inr x)
  with assms [of x] show ?thesis by simp
qed

lemma performs_retry_attempts:
  assumes op: "performs R operation" and op': "emits (\<lambda>_. True) operation"
    and sr: "\<And>e. emits (\<lambda>_. True)
                   (case shouldRetry opts of None \<Rightarrow> is_transient env e | Some p \<Rightarrow> p e)"
  shows "performs R (retry_attempts env opts operation attempt remaining)"
  unfolding performs_def
proof (intro allI impI)
  fix s x s'
  assume "retry_attempts env opts operation attempt remaining s = (Inr x, s')"
  then show "\<exists>t. trace s' = trace s @ t \<and> list_ex R t"
  proof (induction remaining arbitrary: attempt s)
    case 0
    then show ?case using performsD [OF op] by simp
  next
    case (Suc remaining)
    let ?sr = "\<lambda>e. case shouldRetry opts of None \<Rightarrow> is_transient env e | Some p \<Rightarrow> p e"
    obtain r s1 where o: "operation s = (r, s1)" by (cases "operation s")
    show ?case
    proof (cases r)
      case (Inr y)
      with o Suc.prems have "operation s = (Inr x, s')" by simp
      then show ?thesis by (rule performsD [OF op])
    next
      case (Inl e)
      from emitsD [OF op' o] obtain t1 where t1: "trace s1 = trace s @ t1" by blast
      obtain r2 s2 where d: "?sr e s1 = (r2, s2)" by (cases "?sr e s1")
      from emitsD [OF sr d] obtain t2 where t2: "trace s2 = trace s1 @ t2" by blast
      let ?s3 = "s2\<lparr>trace := trace s2 @ [Sleep (backoff_delay opts attempt)]\<rparr>"
      from o Inl d Suc.prems
      have again: "retry_attempts env opts operation (Suc attempt) remaining ?s3 = (Inr x, s')"
        by (cases r2) (auto split: if_splits)
      from Suc.IH [OF again] obtain t3 where
        t3: "trace s' = trace ?s3 @ t3" "list_ex R t3" by blast
      from t1 t2 t3 show ?thesis
        by (intro exI [of _ "t1 @ t2 @ [Sleep (backoff_delay opts attempt)] @ t3"]) simp
    qed
  qed
qed

lemma any_saveAssistantMessage:
  "emits (\<lambda>_. True) (saveAssistantMessage env client conversation_id formattedResponse)"
  unfolding saveAssistantMessage_def now_iso_def
  by (intro emits_rules; simp)

lemma performs_saveAssistantMessage:
  "performs (records_reply conversation_id formattedResponse)
     (saveAssistantMessage env client conversation_id formattedResponse)"
  unfolding saveAssistantMessage_def
  by (intro performs_and_then_lift performs_and_then_later performs_and_then_first
        performs_query emits_rules)
     (simp_all add: now_iso_def emits_call records_reply_def own_or_undefined_def)

lemma save_reply_records:
  assumes "save_reply env client c voiceflowResponse s2
             = (Inr (formattedResponse, assistantMessage), s3)"
  shows "\<exists>t. trace s3 = trace s2 @ t
             \<and> list_ex (records_reply (conversationId c) formattedResponse) t"
proof -
  from assms obtain rp sa where
    "lift (get_prop voiceflowResponse ''data'') s2 = (Inr rp, sa)"
    and rest: "and_then (call env ''formatVoiceflowResponse'' [rp]) (\<lambda>formattedResponse.
       and_then (retryWithBackoff env
                   (saveAssistantMessage env client (conversationId c) formattedResponse)
                   (default_retry 2 300)) (\<lambda>assistantMessage.
       and_then (lift (get_prop (session c) ''id'')) (\<lambda>sid.
       and_then (lift (get_prop formattedResponse ''text'')) (\<lambda>text.
       and_then (call env ''updateSessionContext'' [sid, JObj [(''lastAssistantMessage'', text)]])
         (\<lambda>_.
       return (formattedResponse, assistantMessage)))))) sa
       = (Inr (formattedResponse, assistantMessage), s3)"
    unfolding save_reply_def by (rule and_then_InrE)
  then have sa: "sa = s2" by (simp add: lift_def)
  from rest obtain f sb where
    fmt: "call env ''formatVoiceflowResponse'' [rp] sa = (Inr f, sb)"
    and rest2: "and_then (retryWithBackoff env
                   (saveAssistantMessage env client (conversationId c) f)
                   (default_retry 2 300)) (\<lambda>assistantMessage.
       and_then (lift (get_prop (session c) ''id'')) (\<lambda>sid.
       and_then (lift (get_prop f ''text'')) (\<lambda>text.
       and_then (call env ''updateSessionContext'' [sid, JObj [(''lastAssistantMessage'', text)]])
         (\<lambda>_.
       return (f, assistantMessage))))) sb
       = (Inr (formattedResponse, assistantMessage), s3)"
    by (rule and_then_InrE)
  from rest2 obtain a sc where
    ins: "retryWithBackoff env (saveAssistantMessage env client (conversationId c) f)
            (default_retry 2 300) sb = (Inr a, sc)"
    and rest3: "and_then (lift (get_prop (session c) ''id'')) (\<lambda>sid.
       and_then (lift (get_prop f ''text'')) (\<lambda>text.
       and_then (call env ''updateSessionContext'' [sid, JObj [(''lastAssistantMessage'', text)]])
         (\<lambda>_.
       return (f, a)))) sc
       = (Inr (formattedResponse, assistantMessage), s3)"
    by (rule and_then_InrE)
  have tail: "outcome (and_then (lift (get_prop (session c) ''id'')) (\<lambda>sid.
       and_then (lift (get_prop f ''text'')) (\<lambda>text.
       and_then (call env ''updateSessionContext'' [sid, JObj [(''lastAssistantMessage'', text)]])
         (\<lambda>_.
       return (f, a))))) (\<lambda>p. fst p = f) (\<lambda>_. True)"
    by (intro reads_and_then_lift reads_and_then reads_return) simp
  from outcomeD [OF tail rest3] have f: "f = formattedResponse" by simp
  have "emits (\<lambda>_. True) (call env ''formatVoiceflowResponse'' [rp])"
    by (simp add: emits_call)
  from emitsD [OF this fmt] obtain t1 where t1: "trace sb = trace s2 @ t1"
    using sa by blast
  have "performs (records_reply (conversationId c) f)
          (retryWithBackoff env (saveAssistantMessage env client (conversationId c) f)
             (default_retry 2 300))"
    unfolding retryWithBackoff_def
    by (rule performs_retry_attempts)
       (simp_all add: performs_saveAssistantMessage any_saveAssistantMessage default_retry_def
          emits_is_transient)
  from performsD [OF this ins] obtain t2 where
    t2: "trace sc = trace sb @ t2" "list_ex (records_reply (conversationId c) f) t2"
    by blast
  have "emits (\<lambda>_. True) (and_then (lift (get_prop (session c) ''id'')) (\<lambda>sid.
       and_then (lift (get_prop f ''text'')) (\<lambda>text.
       and_then (call env ''updateSessionContext'' [sid, JObj [(''lastAssistantMessage'', text)]])
         (\<lambda>_.
       return (f, a)))))"
    by (intro emits_rules; simp)
  from emitsD [OF this rest3] obtain t3 where t3: "trace s3 = trace sc @ t3"
    by blast
  from t1 t2 t3 f show ?thesis
    by (intro exI [of _ "t1 @ t2 @ t3"]) simp
qed

lemma any_send:
  "emits (\<lambda>_. True)
     (retryWithBackoff env (sendResponse env platform senderId c formattedResponse accessToken)
        (transient_retry env n d))"
  unfolding sendResponse_def
  by (intro emits_rules; simp)

lemma hello_answer:
  "\<exists>s2. ask_voiceflow (pipeline_env True) (JStr ''T1'') (JStr ''facebook'') (JNum 1700000000000)
          hello_locals s1
        = (Inr (JObj [(''status'', JNum 200),
                      (''data'', JArr [JObj [(''type'', JStr ''text''),
                                             (''payload'', JObj [(''message'', JStr ''Hi there!'')])]])]),
           s2)"
  by (simp add: ask_voiceflow_def callVoiceflow_def voiceflow_url_def
      extractContextFromVoiceflowResponse_def extract_item_def match_here_def
      hello_locals_def run_simps)

lemma hello_saved:
  "\<exists>s3. save_reply (pipeline_env True) pipeline_client hello_locals
          (JObj [(''status'', JNum 200),
                 (''data'', JArr [JObj [(''type'', JStr ''text''),
                                        (''payload'', JObj [(''message'', JStr ''Hi there!'')])]])])
          s2
        = (Inr (JObj [(''text'', JStr ''Hi there!'')], JObj [(''id'', JStr ''msg2'')]), s3)"
  by (simp add: save_reply_def saveAssistantMessage_def hello_locals_def run_simps)

lemma hello_unsent:
  "\<exists>s4. retryWithBackoff (pipeline_env True)
          (sendResponse (pipeline_env True) (JStr ''facebook'') (JStr ''S1'') hello_locals
             (JObj [(''text'', JStr ''Hi there!'')]) (JStr ''EAAB''))
          (transient_retry (pipeline_env True) 3 1000) s3
        = (Inl network_error, s4)"
  by (simp add: sendResponse_def run_simps)

text \<open>
  Claim C4. When everything up to and including the saving of the assistant's message
  succeeded, the saved row was returned, and the send to the channel's API, wrapped in
  its retries, ends with an error, \<^verbatim>\<open>processMessage\<close> still returns a success result
  that carries the warning \<^verbatim>\<open>Message processed but failed to deliver to user\<close>; after the
  failure it only writes an error line to the console, and the requests of the
  invocation contain the insertion of the assistant message with the text of the reply:
  the reply is recorded although it was not delivered.
\<close>

theorem undelivered_reply_is_success:
  assumes sup: "supabase env = Some client"
    and prep: "prepare env client userId platform senderId recipientId message timestamp s
                 = (Inr c, s1)"
    and ask: "ask_voiceflow env userId platform timestamp c s1 = (Inr voiceflowResponse, s2)"
    and saved: "save_reply env client c voiceflowResponse s2
                  = (Inr (formattedResponse, assistantMessage), s3)"
    and row: "is_object assistantMessage"
    and tok: "get_prop (connection c) ''access_token'' = Inr accessToken"
    and send: "retryWithBackoff env
                 (sendResponse env platform senderId c formattedResponse accessToken)
                 (transient_retry env 3 1000) s3 = (Inl sendError, s4)"
  shows "\<exists>messageId sessionId s'.
           get_prop assistantMessage ''id'' = Inr messageId
           \<and> get_prop (session c) ''id'' = Inr sessionId
           \<and> processMessage env userId platform senderId recipientId message timestamp s
               = (Inr (JObj [(''success'', JBool True),
                             (''warning'', JStr ''Message processed but failed to deliver to user''),
                             (''messageId'', messageId), (''sessionId'', sessionId)]), s')
           \<and> s' = \<lparr>world = world s4,
                    trace = trace s4 @ [Console ''error'' ''Failed to send response after retries:'']\<rparr>
           \<and> list_ex (records_reply (conversationId c) formattedResponse) (trace s')"
proof -
  from outcomeD [OF prepare_reads prep] obtain sessionId where
    sid: "get_prop (session c) ''id'' = Inr sessionId"
    by blast
  from get_prop_of_object [OF row] obtain messageId where
    mid: "get_prop assistantMessage ''id'' = Inr messageId"
    by blast
  let ?s' = "\<lparr>world = world s4,
              trace = trace s4 @ [Console ''error'' ''Failed to send response after retries:'']\<rparr>"
  let ?result = "JObj [(''success'', JBool True),
                       (''warning'', JStr ''Message processed but failed to deliver to user''),
                       (''messageId'', messageId), (''sessionId'', sessionId)]"
  have del: "deliver env platform senderId c formattedResponse assistantMessage s3
               = (Inr ?result, ?s')"
    using send
    by (simp add: deliver_def tok try_else_def undelivered_def console_def and_then_emit sid mid
        return_apply)
  have pm: "processMessage env userId platform senderId recipientId message timestamp s
              = (Inr ?result, ?s')"
    using sup prep ask saved del by (simp add: processMessage_def try_catch_def and_then_def)
  from save_reply_records [OF saved] obtain t where
    t: "trace s3 = trace s2 @ t" "list_ex (records_reply (conversationId c) formattedResponse) t"
    by blast
  from emitsD [OF any_send send] obtain t' where t': "trace s4 = trace s3 @ t'"
    by blast
  have "list_ex (records_reply (conversationId c) formattedResponse) (trace ?s')"
    using t t' by (simp add: list_ex_iff) blast
  with mid sid pm show ?thesis
    by (intro exI [of _ messageId] exI [of _ sessionId] exI [of _ ?s']) simp
qed

theorem undelivered_reply_is_success_witness:
  "\<exists>s'. processMessage (pipeline_env True) (JStr ''T1'') (JStr ''facebook'') (JStr ''S1'')
           (JStr ''P1'') hello_message (JNum 1700000000000) start
         = (Inr (JObj [(''success'', JBool True),
                       (''warning'', JStr ''Message processed but failed to deliver to user''),
                       (''messageId'', JStr ''msg2''), (''sessionId'', JStr ''sess1'')]), s')
       \<and> list_ex (records_reply (JStr ''conv1'') (JObj [(''text'', JStr ''Hi there!'')])) (trace s')"
proof -
  let ?env = "pipeline_env True"
  let ?response = "JObj [(''status'', JNum 200),
                         (''data'', JArr [JObj [(''type'', JStr ''text''),
                                                (''payload'', JObj [(''message'', JStr ''Hi there!'')])]])]"
  let ?formatted = "JObj [(''text'', JStr ''Hi there!'')]"
  let ?assistant = "JObj [(''id'', JStr ''msg2'')]"
  obtain s1 where prep:
    "prepare ?env pipeline_client (JStr ''T1'') (JStr ''facebook'') (JStr ''S1'') (JStr ''P1'')
       hello_message (JNum 1700000000000) start = (Inr hello_locals, s1)"
    using hello_prepare by blast
  obtain s2 where ask:
    "ask_voiceflow ?env (JStr ''T1'') (JStr ''facebook'') (JNum 1700000000000) hello_locals s1
       = (Inr ?response, s2)"
    using hello_answer by blast
  obtain s3 where saved:
    "save_reply ?env pipeline_client hello_locals ?response s2 = (Inr (?formatted, ?assistant), s3)"
    using hello_saved by blast
  obtain s4 where send:
    "retryWithBackoff ?env
       (sendResponse ?env (JStr ''facebook'') (JStr ''S1'') hello_locals ?formatted (JStr ''EAAB''))
       (transient_retry ?env 3 1000) s3 = (Inl network_error, s4)"
    using hello_unsent by blast
  have sup: "supabase ?env = Some pipeline_client"
    by (simp add: pipeline_env_def)
  have row: "is_object ?assistant"
    by (simp add: is_object_def nullish_def)
  have tok: "get_prop (connection hello_locals) ''access_token'' = Inr (JStr ''EAAB'')"
    by (simp add: hello_locals_def own_or_undefined_def)
  from undelivered_reply_is_success [OF sup prep ask saved row tok send]
  obtain messageId sessionId s' where
    reads: "get_prop ?assistant ''id'' = Inr messageId"
      "get_prop (session hello_locals) ''id'' = Inr sessionId"
    and run: "processMessage ?env (JStr ''T1'') (JStr ''facebook'') (JStr ''S1'') (JStr ''P1'')
                hello_message (JNum 1700000000000) start
              = (Inr (JObj [(''success'', JBool True),
                            (''warning'', JStr ''Message processed but failed to deliver to user''),
                            (''messageId'', messageId), (''sessionId'', sessionId)]), s')"
    and kept: "list_ex (records_reply (conversationId hello_locals) ?formatted) (trace s')"
    by (elim exE conjE) (rule that)
  from reads have "messageId = JStr ''msg2''" "sessionId = JStr ''sess1''"
    by (simp_all add: hello_locals_def own_or_undefined_def)
  with run kept show ?thesis
    by (intro exI [of _ s']) (simp add: hello_locals_def)
qed


end
